theory Spec2Isabelle
  imports Main "HOL-Library.Word"
begin

section \<open>Go types and values as package reflect sees them\<close>

text \<open>
  \<^verbatim>\<open>copy.go\<close> works on \<^verbatim>\<open>reflect.Value\<close> and \<^verbatim>\<open>reflect.Type\<close> only, so the
  embedding starts with the part of Go's universe of types and values that the code
  distinguishes: the basic kinds it switches on, pointers, slices, maps, structs, the
  empty interface and defined (named) types. Arrays, channels, functions, complex
  numbers, interfaces with methods, embedded fields and struct tags are not modelled.

  The kind \<^verbatim>\<open>reflect.Int\<close> is written \<open>IntK\<close> (the name \<open>Int\<close> is taken in HOL).
\<close>

datatype Kind = Invalid | Bool | IntK | Int8 | Int16 | Int32 | Int64
  | Uint | Uint8 | Uint16 | Uint32 | Uint64 | Uintptr | Float32 | Float64
  | Interface | Map | Pointer | Slice | String | Struct

text \<open>
  \<open>TBasic k\<close> is the predeclared type of a basic kind (\<^verbatim>\<open>bool\<close>, \<^verbatim>\<open>int8\<close>, ...,
  \<^verbatim>\<open>string\<close>); \<open>TDefined n u\<close> is the defined type named \<open>n\<close> with underlying type
  \<open>u\<close> (\<^verbatim>\<open>type n u\<close>).
\<close>

datatype gtype = TBasic Kind | TAny | TPtr gtype | TSlice gtype | TMap gtype gtype
  | TStruct "(string \<times> gtype) list" | TDefined string gtype

text \<open>
  A value carries what is needed to read its dynamic type back. Integers are kept as
  mathematical integers next to their kind; a float is kept as the bit pattern of the
  \<^verbatim>\<open>float64\<close> that \<^verbatim>\<open>Value.Float\<close> returns. A pointer owns its pointee: the model is
  a tree, so it speaks about sources and destinations that share no memory. A map is
  the list of its entries in the order \<^verbatim>\<open>MapRange\<close> yields them; a nil slice and an
  empty slice are not told apart.
\<close>

type_synonym float64 = "64 word"

datatype val = VBool bool | VInt Kind int | VUint Kind int | VFloat Kind float64
  | VString string | VIface "val option" | VPtr gtype "val option"
  | VSlice gtype "val list" | VMap gtype gtype "(val \<times> val) list option"
  | VStruct "(string \<times> val) list" | VDefined string val

fun typeOf :: "val \<Rightarrow> gtype" where
  "typeOf (VBool b) = TBasic Bool"
| "typeOf (VInt k i) = TBasic k"
| "typeOf (VUint k i) = TBasic k"
| "typeOf (VFloat k f) = TBasic k"
| "typeOf (VString s) = TBasic String"
| "typeOf (VIface d) = TAny"
| "typeOf (VPtr t p) = TPtr t"
| "typeOf (VSlice t xs) = TSlice t"
| "typeOf (VMap k e m) = TMap k e"
| "typeOf (VStruct fs) = TStruct (map (\<lambda>(n, v). (n, typeOf v)) fs)"
| "typeOf (VDefined n v) = TDefined n (typeOf v)"

fun zero :: "gtype \<Rightarrow> val" where
  "zero (TBasic k) =
     (if k = Bool then VBool False
      else if k \<in> {Uint, Uint8, Uint16, Uint32, Uint64, Uintptr} then VUint k 0
      else if k \<in> {Float32, Float64} then VFloat k 0
      else if k = String then VString []
      else VInt k 0)"
| "zero TAny = VIface None"
| "zero (TPtr t) = VPtr t None"
| "zero (TSlice t) = VSlice t []"
| "zero (TMap k e) = VMap k e None"
| "zero (TStruct fs) = VStruct (map (\<lambda>(n, t). (n, zero t)) fs)"
| "zero (TDefined n t) = VDefined n (zero t)"

fun rawv :: "val \<Rightarrow> val" where
  "rawv (VDefined n v) = rawv v"
| "rawv v = v"

fun underlying :: "gtype \<Rightarrow> gtype" where
  "underlying (TDefined n t) = underlying t"
| "underlying t = t"

definition isBasic :: "Kind \<Rightarrow> bool" where
  "isBasic k = (k \<in> {Bool, IntK, Int8, Int16, Int32, Int64, Uint, Uint8, Uint16, Uint32, Uint64,
                      Uintptr, Float32, Float64, String})"

fun KindT :: "gtype \<Rightarrow> Kind" where
  "KindT (TBasic k) = (if isBasic k then k else Invalid)"
| "KindT TAny = Interface"
| "KindT (TPtr t) = Pointer"
| "KindT (TSlice t) = Slice"
| "KindT (TMap k e) = Map"
| "KindT (TStruct fs) = Struct"
| "KindT (TDefined n t) = KindT t"

fun ElemT :: "gtype \<Rightarrow> gtype" where
  "ElemT (TPtr t) = t"
| "ElemT (TSlice t) = t"
| "ElemT (TMap k e) = e"
| "ElemT (TDefined n t) = ElemT t"
| "ElemT t = t"

fun KeyT :: "gtype \<Rightarrow> gtype" where
  "KeyT (TMap k e) = k"
| "KeyT (TDefined n t) = KeyT t"
| "KeyT t = t"

fun fieldsT :: "gtype \<Rightarrow> (string \<times> gtype) list" where
  "fieldsT (TStruct fs) = fs"
| "fieldsT (TDefined n t) = fieldsT t"
| "fieldsT t = []"

definition isInt :: "Kind \<Rightarrow> bool" where
  "isInt k = (k \<in> {IntK, Int8, Int16, Int32, Int64})"

definition isUint :: "Kind \<Rightarrow> bool" where
  "isUint k = (k \<in> {Uint, Uint8, Uint16, Uint32, Uint64, Uintptr})"

definition isFloat :: "Kind \<Rightarrow> bool" where
  "isFloat k = (k \<in> {Float32, Float64})"

text \<open>The platform is a 64-bit one: \<^verbatim>\<open>strconv.IntSize\<close> is 64.\<close>

definition IntSize :: nat where
  "IntSize = 64"

fun bitSize :: "Kind \<Rightarrow> nat" where
  "bitSize Int8 = 8"
| "bitSize Int16 = 16"
| "bitSize Int32 = 32"
| "bitSize Int64 = 64"
| "bitSize Uint8 = 8"
| "bitSize Uint16 = 16"
| "bitSize Uint32 = 32"
| "bitSize Uint64 = 64"
| "bitSize k = IntSize"

definition wrapS :: "nat \<Rightarrow> int \<Rightarrow> int" where
  "wrapS w x = (x + 2 ^ (w - 1)) mod 2 ^ w - 2 ^ (w - 1)"

definition wrapU :: "nat \<Rightarrow> int \<Rightarrow> int" where
  "wrapU w x = x mod 2 ^ w"

text \<open>
  Package \<^verbatim>\<open>time\<close>: \<^verbatim>\<open>time.Time\<close> and \<^verbatim>\<open>time.Location\<close> are structs of unexported
  fields, and reflection sees them as such.
\<close>

definition TZone :: gtype where
  "TZone = TDefined ''time.zone''
     (TStruct [(''name'', TBasic String), (''offset'', TBasic IntK), (''isDST'', TBasic Bool)])"

definition TZoneTrans :: gtype where
  "TZoneTrans = TDefined ''time.zoneTrans''
     (TStruct [(''when'', TBasic Int64), (''index'', TBasic Uint8),
               (''isstd'', TBasic Bool), (''isutc'', TBasic Bool)])"

definition TLocation :: gtype where
  "TLocation = TDefined ''time.Location''
     (TStruct [(''name'', TBasic String), (''zone'', TSlice TZone), (''tx'', TSlice TZoneTrans),
               (''extend'', TBasic String), (''cacheStart'', TBasic Int64),
               (''cacheEnd'', TBasic Int64), (''cacheZone'', TPtr TZone)])"

definition TTime :: gtype where
  "TTime = TDefined ''time.Time''
     (TStruct [(''wall'', TBasic Uint64), (''ext'', TBasic Int64), (''loc'', TPtr TLocation)])"

section \<open>Package strconv\<close>

text \<open>
  The integer and boolean routines are written out. A result \<open>None\<close> stands for a
  non-nil error of either sort (syntax or range): the code only tests \<^verbatim>\<open>err == nil\<close>.
\<close>

definition FormatBool :: "bool \<Rightarrow> string" where
  "FormatBool b = (if b then ''true'' else ''false'')"

definition ParseBool :: "string \<Rightarrow> bool option" where
  "ParseBool str =
     (if str \<in> {''1'', ''t'', ''T'', ''true'', ''TRUE'', ''True''} then Some True
      else if str \<in> {''0'', ''f'', ''F'', ''false'', ''FALSE'', ''False''} then Some False
      else None)"

definition digitChar :: "nat \<Rightarrow> char" where
  "digitChar d = ''0123456789'' ! d"

definition digitVal :: "char \<Rightarrow> nat option" where
  "digitVal c = map_of (zip ''0123456789'' [0, 1, 2, 3, 4, 5, 6, 7, 8, 9]) c"

fun formatBits :: "nat \<Rightarrow> string" where
  "formatBits n = (if n < 10 then [digitChar n] else formatBits (n div 10) @ [digitChar (n mod 10)])"

declare formatBits.simps [simp del]

definition FormatUint :: "int \<Rightarrow> string" where
  "FormatUint i = formatBits (nat i)"

definition FormatInt :: "int \<Rightarrow> string" where
  "FormatInt i = (if i < 0 then CHR ''-'' # formatBits (nat (- i)) else formatBits (nat i))"

fun parseDigits :: "string \<Rightarrow> nat \<Rightarrow> nat option" where
  "parseDigits [] n = Some n"
| "parseDigits (c # cs) n =
     (case digitVal c of None \<Rightarrow> None | Some d \<Rightarrow> parseDigits cs (n * 10 + d))"

definition ParseUint :: "string \<Rightarrow> nat \<Rightarrow> int option" where
  "ParseUint s bits =
     (if s = [] then None
      else case parseDigits s 0 of
             None \<Rightarrow> None
           | Some n \<Rightarrow> if n > 2 ^ (if bits = 0 then IntSize else bits) - 1 then None
                       else Some (int n))"

definition ParseInt :: "string \<Rightarrow> nat \<Rightarrow> int option" where
  "ParseInt s0 bits =
     (if s0 = [] then None
      else let neg = (hd s0 = CHR ''-'');
               s = (if hd s0 = CHR ''+'' \<or> hd s0 = CHR ''-'' then tl s0 else s0)
           in case ParseUint s bits of
                None \<Rightarrow> None
              | Some un \<Rightarrow>
                  let cutoff = 2 ^ ((if bits = 0 then IntSize else bits) - 1)
                  in if \<not> neg \<and> un \<ge> cutoff then None
                     else if neg \<and> un > cutoff then None
                     else Some (if neg then - un else un))"


section \<open>Package reflect\<close>

subsection \<open>Types\<close>

fun hasName :: "gtype \<Rightarrow> bool" where
  "hasName (TBasic k) = True"
| "hasName (TDefined n t) = True"
| "hasName t = False"

text \<open>
  \<^verbatim>\<open>directlyAssignable\<close>, \<^verbatim>\<open>implements\<close> and \<^verbatim>\<open>Type.AssignableTo\<close>. Without struct
  tags two types are identical exactly when they are equal. The only interface types
  of the model have no methods, so every type implements them.
\<close>

definition directlyAssignable :: "gtype \<Rightarrow> gtype \<Rightarrow> bool" where
  "directlyAssignable T V =
     (if T = V then True
      else if (hasName T \<and> hasName V) \<or> KindT T \<noteq> KindT V then False
      else underlying T = underlying V)"

definition implements :: "gtype \<Rightarrow> gtype \<Rightarrow> bool" where
  "implements T V = (KindT T = Interface)"

definition AssignableTo :: "gtype \<Rightarrow> gtype \<Rightarrow> bool" where
  "AssignableTo V T = (directlyAssignable T V \<or> implements T V)"

definition IsExported :: "string \<Rightarrow> bool" where
  "IsExported name = (name \<noteq> [] \<and> hd name \<in> set ''ABCDEFGHIJKLMNOPQRSTUVWXYZ'')"

fun kindName :: "Kind \<Rightarrow> string" where
  "kindName Invalid = ''invalid''"
| "kindName Bool = ''bool''"
| "kindName IntK = ''int''"
| "kindName Int8 = ''int8''"
| "kindName Int16 = ''int16''"
| "kindName Int32 = ''int32''"
| "kindName Int64 = ''int64''"
| "kindName Uint = ''uint''"
| "kindName Uint8 = ''uint8''"
| "kindName Uint16 = ''uint16''"
| "kindName Uint32 = ''uint32''"
| "kindName Uint64 = ''uint64''"
| "kindName Uintptr = ''uintptr''"
| "kindName Float32 = ''float32''"
| "kindName Float64 = ''float64''"
| "kindName Interface = ''interface''"
| "kindName Map = ''map''"
| "kindName Pointer = ''ptr''"
| "kindName Slice = ''slice''"
| "kindName String = ''string''"
| "kindName Struct = ''struct''"

fun typeString :: "gtype \<Rightarrow> string" where
  "typeString (TBasic k) = kindName k"
| "typeString TAny = ''interface {}''"
| "typeString (TPtr t) = ''*'' @ typeString t"
| "typeString (TSlice t) = ''[]'' @ typeString t"
| "typeString (TMap k e) = ''map['' @ typeString k @ '']'' @ typeString e"
| "typeString (TStruct fs) =
     ''struct {'' @ concat (map (\<lambda>(n, t). '' '' @ n @ '' '' @ typeString t @ '';'') fs) @ '' }''"
| "typeString (TDefined n t) = n"

function indirectType :: "gtype \<Rightarrow> gtype" where
  "indirectType reflectType =
     (if KindT reflectType = Pointer then indirectType (ElemT reflectType) else reflectType)"
  by pat_completeness auto

termination indirectType
proof (relation "measure size")
  show "wf (measure size)" by simp
next
  fix reflectType :: gtype
  assume "KindT reflectType = Pointer"
  then have "size (ElemT reflectType) < size reflectType"
    by (induction reflectType) (auto simp: isBasic_def split: if_splits)
  then show "(ElemT reflectType, reflectType) \<in> measure size" by simp
qed

declare indirectType.simps [simp del]

subsection \<open>Values\<close>

text \<open>
  A \<^verbatim>\<open>reflect.Value\<close> is a handle on a place in memory. Here it is the value found
  there (\<open>cur\<close>), the way back to the variable it was reached from (\<open>up\<close>, one frame
  per \<^verbatim>\<open>Elem\<close>, \<^verbatim>\<open>Field\<close> or \<^verbatim>\<open>Index\<close>, innermost first) and the two flags the
  code depends on: \<open>flagAddr\<close> (addressable) and \<open>flagRO\<close> (reached through an
  unexported field). The zero \<^verbatim>\<open>Value\<close> is \<open>None\<close>. A write through a handle
  replaces \<open>cur\<close>; \<open>plug\<close> rebuilds the enclosing variable.
\<close>

datatype step = ElemOf | FieldOf string | IndexOf nat

record Value =
  cur :: val
  up :: "(val \<times> step) list"
  flagAddr :: bool
  flagRO :: bool

datatype error =
    ZeroValue      \<comment> \<open>reflect: call of reflect.Value.Type on zero Value\<close>
  | Unaddressable  \<comment> \<open>reflect: reflect.Value.Set using unaddressable value\<close>
  | Unexported     \<comment> \<open>reflect: ... using value obtained using unexported field\<close>
  | NotAssignable  \<comment> \<open>reflect.Set: value of type V is not assignable to type T\<close>
  | NoConversion   \<comment> \<open>reflect.Value.Convert: value of type V cannot be converted to type T\<close>
  | NilMap         \<comment> \<open>assignment to entry in nil map\<close>

definition bindE :: "error + 'a \<Rightarrow> ('a \<Rightarrow> error + 'b) \<Rightarrow> error + 'b" where
  "bindE r f = (case r of Inl e \<Rightarrow> Inl e | Inr x \<Rightarrow> f x)"

fun get1 :: "val \<Rightarrow> step \<Rightarrow> val option" where
  "get1 (VDefined n v) s = get1 v s"
| "get1 (VPtr t p) ElemOf = p"
| "get1 (VStruct fs) (FieldOf n) = map_of fs n"
| "get1 (VSlice t xs) (IndexOf i) = (if i < length xs then Some (xs ! i) else None)"
| "get1 v s = None"

fun put1 :: "val \<Rightarrow> step \<Rightarrow> val \<Rightarrow> val" where
  "put1 (VDefined n v) s x = VDefined n (put1 v s x)"
| "put1 (VPtr t p) ElemOf x = VPtr t (Some x)"
| "put1 (VStruct fs) (FieldOf n) x = VStruct (map (\<lambda>(m, v). if m = n then (m, x) else (m, v)) fs)"
| "put1 (VSlice t xs) (IndexOf i) x = VSlice t (xs[i := x])"
| "put1 v s x = v"

fun plug :: "(val \<times> step) list \<Rightarrow> val \<Rightarrow> val" where
  "plug [] x = x"
| "plug ((p, s) # fs) x = plug fs (put1 p s x)"

definition resync :: "Value \<Rightarrow> Value \<Rightarrow> Value" where
  \<comment> \<open>the handle \<open>outer\<close> after a write through \<open>inner\<close>, a handle reached from it\<close>
  "resync outer inner =
     outer\<lparr>cur := plug (take (length (up inner) - length (up outer)) (up inner)) (cur inner)\<rparr>"

definition ValueOf :: "val option \<Rightarrow> Value option" where
  "ValueOf i = (case i of None \<Rightarrow> None
                | Some v \<Rightarrow> Some \<lparr>cur = v, up = [], flagAddr = False, flagRO = False\<rparr>)"

definition IsValid :: "Value option \<Rightarrow> bool" where
  "IsValid v = (v \<noteq> None)"

definition Type :: "Value \<Rightarrow> gtype" where
  "Type v = typeOf (cur v)"

definition Kind :: "Value option \<Rightarrow> Kind" where
  "Kind v = (case v of None \<Rightarrow> Invalid | Some h \<Rightarrow> KindT (Type h))"

definition enter :: "Value \<Rightarrow> step \<Rightarrow> bool \<Rightarrow> bool \<Rightarrow> Value option" where
  "enter v s addr ro =
     (case get1 (cur v) s of None \<Rightarrow> None
      | Some x \<Rightarrow> Some \<lparr>cur = x, up = (cur v, s) # up v, flagAddr = addr, flagRO = ro\<rparr>)"

text \<open>
  \<^verbatim>\<open>Elem\<close> of a nil pointer is the zero \<^verbatim>\<open>Value\<close>; the pointee of a pointer is
  addressable. \<^verbatim>\<open>FieldByName\<close> hands on addressability and marks a field with an
  unexported name read-only; a name the struct does not have gives the zero
  \<^verbatim>\<open>Value\<close>. \<^verbatim>\<open>Index\<close> is only called below the length.
\<close>

definition Elem :: "Value \<Rightarrow> Value option" where
  "Elem v = enter v ElemOf True (flagRO v)"

definition FieldByName :: "Value \<Rightarrow> string \<Rightarrow> Value option" where
  "FieldByName v name = enter v (FieldOf name) (flagAddr v) (flagRO v \<or> \<not> IsExported name)"

definition Index :: "Value \<Rightarrow> nat \<Rightarrow> Value option" where
  "Index v i = enter v (IndexOf i) True (flagRO v)"

definition Len :: "Value \<Rightarrow> nat" where
  "Len v = (case rawv (cur v) of VSlice t xs \<Rightarrow> length xs
            | VMap k e m \<Rightarrow> (case m of None \<Rightarrow> 0 | Some es \<Rightarrow> length es)
            | VString s \<Rightarrow> length s | _ \<Rightarrow> 0)"

definition CanSet :: "Value option \<Rightarrow> bool" where
  "CanSet v = (case v of None \<Rightarrow> False | Some h \<Rightarrow> flagAddr h \<and> \<not> flagRO h)"

definition CanInterface :: "Value \<Rightarrow> bool" where
  "CanInterface v = (\<not> flagRO v)"

definition IsNil :: "Value \<Rightarrow> bool" where
  "IsNil v = (case rawv (cur v) of VPtr t p \<Rightarrow> p = None | VMap k e m \<Rightarrow> m = None
              | VIface d \<Rightarrow> d = None | _ \<Rightarrow> False)"

text \<open>The accessors are called under the kind they need (the code switches on it first).\<close>

definition BoolV :: "Value \<Rightarrow> bool" where
  "BoolV v = (case rawv (cur v) of VBool b \<Rightarrow> b | _ \<Rightarrow> False)"

definition IntV :: "Value \<Rightarrow> int" where
  "IntV v = (case rawv (cur v) of VInt k i \<Rightarrow> i | _ \<Rightarrow> 0)"

definition UintV :: "Value \<Rightarrow> int" where
  "UintV v = (case rawv (cur v) of VUint k i \<Rightarrow> i | _ \<Rightarrow> 0)"

definition FloatV :: "Value \<Rightarrow> float64" where
  "FloatV v = (case rawv (cur v) of VFloat k f \<Rightarrow> f | _ \<Rightarrow> 0)"

definition StringV :: "Value \<Rightarrow> string" where
  \<comment> \<open>\<^verbatim>\<open>Value.String\<close> does not panic on another kind: it renders \<^verbatim>\<open><T Value>\<close>\<close>
  "StringV v = (case rawv (cur v) of VString s \<Rightarrow> s
                | _ \<Rightarrow> ''<'' @ typeString (Type v) @ '' Value>'')"

fun retype :: "val \<Rightarrow> gtype \<Rightarrow> val" where
  \<comment> \<open>the same representation under the type \<open>T\<close> (of identical underlying type)\<close>
  "retype x (TDefined n u) = VDefined n (retype x u)"
| "retype x T = rawv x"

definition assignTo :: "val \<Rightarrow> gtype \<Rightarrow> error + val" where
  "assignTo x dst =
     (if directlyAssignable dst (typeOf x) then Inr (retype x dst)
      else if implements dst (typeOf x) then
        Inr (retype (VIface (case rawv x of VIface d \<Rightarrow> d | _ \<Rightarrow> Some x)) dst)
      else Inl NotAssignable)"

definition Set :: "Value \<Rightarrow> Value \<Rightarrow> error + Value" where
  "Set v x =
     (if flagRO v then Inl Unexported
      else if \<not> flagAddr v then Inl Unaddressable
      else if flagRO x then Inl Unexported
      else bindE (assignTo (cur x) (Type v)) (\<lambda>y. Inr (v\<lparr>cur := y\<rparr>)))"

definition New :: "gtype \<Rightarrow> Value" where
  "New T = \<lparr>cur = VPtr T (Some (zero T)), up = [], flagAddr = False, flagRO = False\<rparr>"

definition NewElem :: "gtype \<Rightarrow> Value" where
  \<comment> \<open>\<^verbatim>\<open>reflect.New(T).Elem()\<close>: a fresh settable slot holding the zero value of \<open>T\<close>\<close>
  "NewElem T = \<lparr>cur = zero T, up = [(VPtr T (Some (zero T)), ElemOf)], flagAddr = True, flagRO = False\<rparr>"


function indirectValue :: "Value option \<Rightarrow> Value option" where
  "indirectValue reflectValue =
     (if Kind reflectValue = Pointer
      then indirectValue (case reflectValue of None \<Rightarrow> None | Some v \<Rightarrow> Elem v)
      else reflectValue)"
  by pat_completeness auto

termination indirectValue
proof (relation "measure (\<lambda>r. case r of None \<Rightarrow> 0 | Some v \<Rightarrow> Suc (size (cur v)))")
  show "wf (measure (\<lambda>r. case r of None \<Rightarrow> 0 | Some v \<Rightarrow> Suc (size (cur v))))" by simp
next
  fix reflectValue :: "Value option"
  assume k: "Kind reflectValue = Pointer"
  have sz: "get1 v ElemOf = Some x \<Longrightarrow> size x < size v" for v x
    by (induction v) auto
  from k obtain v where v: "reflectValue = Some v"
    by (cases reflectValue) (auto simp: Kind_def)
  show "(case reflectValue of None \<Rightarrow> None | Some v \<Rightarrow> Elem v, reflectValue)
          \<in> measure (\<lambda>r. case r of None \<Rightarrow> 0 | Some v \<Rightarrow> Suc (size (cur v)))"
    using v sz [of "cur v"] by (auto simp: Elem_def enter_def split: option.splits)
qed

declare indirectValue.simps [simp del]

text \<open>
  \<^verbatim>\<open>reflect.Append\<close> returns a new slice value; \<^verbatim>\<open>MapRange\<close> yields copies of the
  keys and values, which inherit the read-only flag of the map; \<^verbatim>\<open>SetMapIndex\<close>
  replaces the value under an equal key or adds the entry. Keys are compared with HOL's
  equality, which is Go's \<^verbatim>\<open>==\<close> on booleans, integers, strings and structs of them.
\<close>

definition Append :: "Value \<Rightarrow> Value \<Rightarrow> error + Value" where
  "Append s x =
     (if flagRO s \<or> flagRO x then Inl Unexported
      else bindE (assignTo (cur x) (ElemT (Type s)))
             (\<lambda>y. Inr \<lparr>cur = (case rawv (cur s) of
                                 VSlice t xs \<Rightarrow> retype (VSlice t (xs @ [y])) (Type s)
                               | _ \<Rightarrow> cur s),
                        up = [], flagAddr = False, flagRO = False\<rparr>))"

definition MakeMap :: "gtype \<Rightarrow> Value" where
  "MakeMap T = \<lparr>cur = retype (VMap (KeyT T) (ElemT T) (Some [])) T, up = [],
                flagAddr = False, flagRO = False\<rparr>"

definition MapRange :: "Value \<Rightarrow> (Value \<times> Value) list" where
  "MapRange v =
     (case rawv (cur v) of
        VMap k e (Some es) \<Rightarrow>
          map (\<lambda>(x, y). (\<lparr>cur = x, up = [], flagAddr = False, flagRO = flagRO v\<rparr>,
                         \<lparr>cur = y, up = [], flagAddr = False, flagRO = flagRO v\<rparr>)) es
      | _ \<Rightarrow> [])"

definition upsert :: "val \<Rightarrow> val \<Rightarrow> (val \<times> val) list \<Rightarrow> (val \<times> val) list" where
  "upsert k e es =
     (if k \<in> fst ` set es then map (\<lambda>(k', e'). if k' = k then (k', e) else (k', e')) es
      else es @ [(k, e)])"

definition SetMapIndex :: "Value \<Rightarrow> Value \<Rightarrow> Value \<Rightarrow> error + Value" where
  "SetMapIndex v key elem =
     (if flagRO v \<or> flagRO key then Inl Unexported
      else bindE (assignTo (cur key) (KeyT (Type v)))
        (\<lambda>k. if flagRO elem then Inl Unexported
              else bindE (assignTo (cur elem) (ElemT (Type v)))
                (\<lambda>e. case rawv (cur v) of
                        VMap kt et (Some es) \<Rightarrow>
                          Inr (v\<lparr>cur := retype (VMap kt et (Some (upsert k e es))) (Type v)\<rparr>)
                      | _ \<Rightarrow> Inl NilMap)))"

subsection \<open>Conversion\<close>

text \<open>
  What the code needs beyond package reflect comes from the standard library and is
  taken as a parameter: the float routines of strconv and the float conversions of
  the language, package time, and the \<^verbatim>\<open>String\<close> methods declared on defined types
  (by type name; \<^verbatim>\<open>fmt.Stringer\<close>).
\<close>

record stdlib =
  FormatFloat :: "float64 \<Rightarrow> nat \<Rightarrow> string"  \<comment> \<open>\<^verbatim>\<open>strconv.FormatFloat(f, 'f', -1, bitSize)\<close>\<close>
  ParseFloat :: "string \<Rightarrow> float64 option"     \<comment> \<open>\<^verbatim>\<open>strconv.ParseFloat(s, 64)\<close>\<close>
  ToFloat32 :: "float64 \<Rightarrow> float64"            \<comment> \<open>\<^verbatim>\<open>float64(float32(f))\<close>\<close>
  IntToFloat :: "int \<Rightarrow> float64"                \<comment> \<open>\<^verbatim>\<open>float64(i)\<close>\<close>
  FloatToInt :: "float64 \<Rightarrow> int"                \<comment> \<open>\<^verbatim>\<open>int64(f)\<close>\<close>
  FloatToUint :: "float64 \<Rightarrow> int"               \<comment> \<open>\<^verbatim>\<open>uint64(f)\<close>\<close>
  LoadLocation :: "string \<Rightarrow> val option"        \<comment> \<open>\<^verbatim>\<open>time.LoadLocation(name)\<close>\<close>
  UTC :: val                                                  \<comment> \<open>\<^verbatim>\<open>time.UTC\<close>\<close>
  TimeFormat :: "val \<Rightarrow> val \<Rightarrow> string \<Rightarrow> string"  \<comment> \<open>\<^verbatim>\<open>t.In(loc).Format(layout)\<close>\<close>
  ParseInLocation :: "string \<Rightarrow> string \<Rightarrow> val \<Rightarrow> val option"
  StringMethod :: "string \<Rightarrow> (val \<Rightarrow> string) option"

definition makeInt :: "gtype \<Rightarrow> int \<Rightarrow> val" where
  "makeInt T bits =
     retype (if isInt (KindT T) then VInt (KindT T) (wrapS (bitSize (KindT T)) bits)
             else VUint (KindT T) (wrapU (bitSize (KindT T)) bits)) T"

definition makeFloat :: "stdlib \<Rightarrow> gtype \<Rightarrow> float64 \<Rightarrow> val" where
  "makeFloat env T f =
     retype (VFloat (KindT T) (if KindT T = Float32 then ToFloat32 env f else f)) T"

definition intOf :: "val \<Rightarrow> int" where
  "intOf v = (case rawv v of VInt k i \<Rightarrow> i | VUint k i \<Rightarrow> i | _ \<Rightarrow> 0)"

definition floatOf :: "val \<Rightarrow> float64" where
  "floatOf v = (case rawv v of VFloat k f \<Rightarrow> f | _ \<Rightarrow> 0)"

text \<open>
  \<^verbatim>\<open>convertOp\<close>, without the conversions between strings and integers or slices:
  \<^verbatim>\<open>CopyValue\<close> converts a string only to a type of kind \<^verbatim>\<open>String\<close>, and reaches
  \<^verbatim>\<open>CanConvert\<close> only when neither type is of that kind.
\<close>

definition convertOp :: "stdlib \<Rightarrow> gtype \<Rightarrow> gtype \<Rightarrow> (val \<Rightarrow> val) option" where
  "convertOp env dst src =
     (let ks = KindT src; kd = KindT dst in
      if (isInt ks \<or> isUint ks) \<and> (isInt kd \<or> isUint kd) then
        Some (\<lambda>v. makeInt dst (intOf v))
      else if (isInt ks \<or> isUint ks) \<and> isFloat kd then
        Some (\<lambda>v. makeFloat env dst (IntToFloat env (intOf v)))
      else if isFloat ks \<and> isInt kd then
        Some (\<lambda>v. makeInt dst (FloatToInt env (floatOf v)))
      else if isFloat ks \<and> isUint kd then
        Some (\<lambda>v. makeInt dst (FloatToUint env (floatOf v)))
      else if isFloat ks \<and> isFloat kd then
        Some (\<lambda>v. makeFloat env dst (floatOf v))
      else if underlying dst = underlying src then
        Some (\<lambda>v. retype v dst)
      else if kd = Pointer \<and> \<not> hasName dst \<and> ks = Pointer \<and> \<not> hasName src
              \<and> underlying (ElemT dst) = underlying (ElemT src) then
        Some (\<lambda>v. case v of VPtr t p \<Rightarrow> VPtr (ElemT dst) (map_option (\<lambda>x. retype x (ElemT dst)) p)
                    | _ \<Rightarrow> v)
      else if implements dst src then
        Some (\<lambda>v. retype (VIface (case rawv v of VIface d \<Rightarrow> d | _ \<Rightarrow> Some v)) dst)
      else None)"

definition CanConvert :: "stdlib \<Rightarrow> Value \<Rightarrow> gtype \<Rightarrow> bool" where
  "CanConvert env v T = (convertOp env T (Type v) \<noteq> None)"

definition Convert :: "stdlib \<Rightarrow> Value \<Rightarrow> gtype \<Rightarrow> error + Value" where
  "Convert env v T =
     (case convertOp env T (Type v) of
        None \<Rightarrow> Inl NoConversion
      | Some op \<Rightarrow> Inr \<lparr>cur = op (cur v), up = [], flagAddr = False, flagRO = flagRO v\<rparr>)"

definition stringer :: "stdlib \<Rightarrow> Value \<Rightarrow> string option" where
  \<comment> \<open>\<^verbatim>\<open>v.Interface().(fmt.Stringer)\<close> followed by \<^verbatim>\<open>String()\<close>\<close>
  "stringer env v =
     (case Type v of
        TDefined n u \<Rightarrow> (case StringMethod env n of None \<Rightarrow> None | Some m \<Rightarrow> Some (m (cur v)))
      | _ \<Rightarrow> None)"

section \<open>copy.go\<close>

text \<open>The two package variables; every call reads them from the state it is given.\<close>

record globals =
  DateTimeLayout :: string
  TimeZone :: string

definition initial :: globals where
  "initial = \<lparr>DateTimeLayout = ''2006-01-02 15:04:05'', TimeZone = ''Asia/Shanghai''\<rparr>"

definition getTimeZone :: "stdlib \<Rightarrow> globals \<Rightarrow> val" where
  "getTimeZone env g = (case LoadLocation env (TimeZone g) of Some v \<Rightarrow> v | None \<Rightarrow> UTC env)"

text \<open>
  \<^verbatim>\<open>CopyValue\<close> returns its boolean together with the destination handle it was
  given, as the write (if any) left it. \<open>setTo\<close> is \<^verbatim>\<open>toValue.Set(x); return true\<close>,
  where building \<open>x\<close> or the \<^verbatim>\<open>Set\<close> may panic.
\<close>

definition setTo :: "Value option \<Rightarrow> Value \<Rightarrow> error + Value \<Rightarrow> error + bool \<times> Value option" where
  "setTo toValue0 toValue x =
     bindE (bindE x (Set toValue)) (\<lambda>t. Inr (True, map_option (\<lambda>outer. resync outer t) toValue0))"

definition StringValue :: "string \<Rightarrow> Value" where
  \<comment> \<open>\<^verbatim>\<open>reflect.ValueOf(s)\<close> for a string \<open>s\<close>\<close>
  "StringValue s = \<lparr>cur = VString s, up = [], flagAddr = False, flagRO = False\<rparr>"

definition Plain :: "val \<Rightarrow> Value" where
  \<comment> \<open>\<^verbatim>\<open>reflect.ValueOf(x)\<close> for a non-nil \<open>x\<close>\<close>
  "Plain x = \<lparr>cur = x, up = [], flagAddr = False, flagRO = False\<rparr>"

definition CopyValue :: "stdlib \<Rightarrow> globals \<Rightarrow> Value option \<Rightarrow> Value option
                          \<Rightarrow> error + bool \<times> Value option" where
  "CopyValue env g fromValue0 toValue0 =
     (case indirectValue fromValue0 of
        None \<Rightarrow> Inr (False, toValue0)
      | Some fromValue \<Rightarrow>
     (case indirectValue toValue0 of
        None \<Rightarrow> Inr (False, toValue0)
      | Some toValue \<Rightarrow>
        let fromType = indirectType (Type fromValue);
            toType = indirectType (Type toValue)
        in
        if AssignableTo fromType toType then setTo toValue0 toValue (Inr fromValue)
        else if KindT toType = String then
          (if KindT fromType = Bool then
             setTo toValue0 toValue (Convert env (Plain (VString (FormatBool (BoolV fromValue)))) toType)
           else if KindT fromType \<in> {IntK, Int8, Int16, Int32, Int64} then
             setTo toValue0 toValue (Convert env (Plain (VString (FormatInt (IntV fromValue)))) toType)
           else if KindT fromType \<in> {Uint, Uint8, Uint16, Uint32, Uint64} then
             setTo toValue0 toValue (Convert env (Plain (VString (FormatUint (UintV fromValue)))) toType)
           else if KindT fromType = Float32 then
             setTo toValue0 toValue
               (Convert env (Plain (VString (FormatFloat env (FloatV fromValue) 32))) toType)
           else if KindT fromType = Float64 then
             setTo toValue0 toValue
               (Convert env (Plain (VString (FormatFloat env (FloatV fromValue) 64))) toType)
           else if KindT fromType = Struct then
             (if CanInterface fromValue then
                (if Type fromValue = TTime then
                   setTo toValue0 toValue
                     (Convert env (Plain (VString (TimeFormat env (cur fromValue) (getTimeZone env g)
                                                      (DateTimeLayout g)))) toType)
                 else case stringer env fromValue of
                        Some s \<Rightarrow> setTo toValue0 toValue (Convert env (Plain (VString s)) toType)
                      | None \<Rightarrow> Inr (False, toValue0))
              else Inr (False, toValue0))
           else Inr (False, toValue0))
        else if KindT fromType = String then
          (if KindT toType = Bool then
             (case ParseBool (StringV fromValue) of
                Some v \<Rightarrow> setTo toValue0 toValue (Convert env (Plain (VBool v)) toType)
              | None \<Rightarrow> Inr (False, toValue0))
           else if KindT toType \<in> {IntK, Int8, Int16, Int32, Int64} then
             (case ParseInt (StringV fromValue) 0 of
                Some v \<Rightarrow> setTo toValue0 toValue (Convert env (Plain (VInt Int64 v)) toType)
              | None \<Rightarrow> Inr (False, toValue0))
           else if KindT toType \<in> {Uint, Uint8, Uint16, Uint32, Uint64} then
             (case ParseUint (StringV fromValue) 0 of
                Some v \<Rightarrow> setTo toValue0 toValue (Convert env (Plain (VUint Uint64 v)) toType)
              | None \<Rightarrow> Inr (False, toValue0))
           else if KindT toType \<in> {Float32, Float64} then
             (case ParseFloat env (StringV fromValue) of
                Some v \<Rightarrow> setTo toValue0 toValue (Convert env (Plain (VFloat Float64 v)) toType)
              | None \<Rightarrow> Inr (False, toValue0))
           else if KindT toType = Struct then
             (let v = NewElem toType in
              if CanInterface v \<and> Type v = TTime then
                (case ParseInLocation env (DateTimeLayout g) (StringV fromValue) (getTimeZone env g) of
                   Some t \<Rightarrow> setTo toValue0 toValue (Convert env (Plain t) toType)
                 | None \<Rightarrow> Inr (True, toValue0))
              else Inr (False, toValue0))
           else Inr (False, toValue0))
        else if CanConvert env fromValue toType then
          setTo toValue0 toValue (Convert env fromValue toType)
        else Inr (False, toValue0)))"


definition CopyService :: "stdlib \<Rightarrow> globals \<Rightarrow> Value option \<Rightarrow> Value option
                            \<Rightarrow> error + bool \<times> Value option" where
  \<comment> \<open>\<^verbatim>\<open>var CopyService Service = DefaultService{}\<close>\<close>
  "CopyService = CopyValue"

text \<open>
  The five loops of \<^verbatim>\<open>Copy\<close>. Each takes the handle \<open>toValue\<close> on the destination and
  returns it as the iteration left it; a panic ends the loop. Source and destination
  share no memory, so the length of the source slice and the entries of the source
  map are those found on entry.
\<close>

definition after :: "Value \<Rightarrow> Value option \<Rightarrow> Value" where
  \<comment> \<open>\<open>toValue\<close> seen again after \<^verbatim>\<open>CopyValue\<close> has worked on one of its fields\<close>
  "after toValue field = (case field of None \<Rightarrow> toValue | Some f \<Rightarrow> resync toValue f)"

fun sliceToSlice :: "stdlib \<Rightarrow> globals \<Rightarrow> Value \<Rightarrow> gtype \<Rightarrow> nat list \<Rightarrow> Value
                      \<Rightarrow> error + Value" where
  "sliceToSlice env g fromValue toType [] toValue = Inr toValue"
| "sliceToSlice env g fromValue toType (i # is) toValue =
     (if \<not> IsValid (Index fromValue i) then sliceToSlice env g fromValue toType is toValue
      else
        let v = NewElem (ElemT toType) in
        case CopyService env g (Index fromValue i) (Some v) of
          Inl e \<Rightarrow> Inl e
        | Inr (ok, v') \<Rightarrow>
            if ok then
              (case bindE (Append toValue (case v' of None \<Rightarrow> v | Some w \<Rightarrow> w)) (Set toValue) of
                 Inl e \<Rightarrow> Inl e
               | Inr toValue' \<Rightarrow> sliceToSlice env g fromValue toType is toValue')
            else sliceToSlice env g fromValue toType is toValue)"

definition allocField :: "gtype \<Rightarrow> Value \<Rightarrow> error + Value" where
  \<comment> \<open>lines 183 to 185 and 227 to 229\<close>
  "allocField toFieldType toFieldValue =
     (if KindT toFieldType = Pointer \<and> IsNil toFieldValue
      then Set toFieldValue (New (indirectType toFieldType))
      else Inr toFieldValue)"

fun structToStruct :: "stdlib \<Rightarrow> globals \<Rightarrow> Value \<Rightarrow> gtype \<Rightarrow> (string \<times> gtype) list \<Rightarrow> Value
                        \<Rightarrow> error + Value" where
  "structToStruct env g fromValue toType [] toValue = Inr toValue"
| "structToStruct env g fromValue toType (fromField # rest) toValue =
     (case map_of (fieldsT toType) (fst fromField) of
        None \<Rightarrow> structToStruct env g fromValue toType rest toValue
      | Some toFieldType \<Rightarrow>
          let fromFieldValue = FieldByName fromValue (fst fromField);
              toFieldValue = FieldByName toValue (fst fromField)
          in
          if \<not> CanSet toFieldValue then structToStruct env g fromValue toType rest toValue
          else
            (case toFieldValue of
               None \<Rightarrow> structToStruct env g fromValue toType rest toValue
             | Some tfv \<Rightarrow>
                (case allocField toFieldType tfv of
                   Inl e \<Rightarrow> Inl e
                 | Inr tfv' \<Rightarrow>
                    (case CopyService env g fromFieldValue (Some tfv') of
                       Inl e \<Rightarrow> Inl e
                     | Inr (ok, tfv'') \<Rightarrow>
                         structToStruct env g fromValue toType rest (after toValue tfv'')))))"

definition makeIfNil :: "gtype \<Rightarrow> Value \<Rightarrow> error + Value" where
  \<comment> \<open>lines 193 to 195 and 237 to 239\<close>
  "makeIfNil toType toValue =
     (if IsNil toValue then Set toValue (MakeMap toType) else Inr toValue)"

fun mapToMap :: "stdlib \<Rightarrow> globals \<Rightarrow> gtype \<Rightarrow> (Value \<times> Value) list \<Rightarrow> Value
                  \<Rightarrow> error + Value" where
  "mapToMap env g toType [] toValue = Inr toValue"
| "mapToMap env g toType (kv # rest) toValue =
     (let k = NewElem (KeyT toType) in
      case CopyService env g (Some (fst kv)) (Some k) of
        Inl e \<Rightarrow> Inl e
      | Inr (okk, k') \<Rightarrow>
          if \<not> okk then mapToMap env g toType rest toValue
          else
            let v = NewElem (ElemT toType) in
            (case CopyService env g (Some (snd kv)) (Some v) of
               Inl e \<Rightarrow> Inl e
             | Inr (okv, v') \<Rightarrow>
                 if \<not> okv then mapToMap env g toType rest toValue
                 else
                   (case SetMapIndex toValue (case k' of None \<Rightarrow> k | Some w \<Rightarrow> w)
                                             (case v' of None \<Rightarrow> v | Some w \<Rightarrow> w) of
                      Inl e \<Rightarrow> Inl e
                    | Inr toValue' \<Rightarrow> mapToMap env g toType rest toValue')))"

fun mapToStruct :: "stdlib \<Rightarrow> globals \<Rightarrow> gtype \<Rightarrow> (Value \<times> Value) list \<Rightarrow> Value
                     \<Rightarrow> error + Value" where
  "mapToStruct env g toType [] toValue = Inr toValue"
| "mapToStruct env g toType (kv # rest) toValue =
     (case map_of (fieldsT toType) (StringV (fst kv)) of
        None \<Rightarrow> mapToStruct env g toType rest toValue
      | Some toFieldType \<Rightarrow>
          let toFieldValue = FieldByName toValue (StringV (fst kv)) in
          if \<not> CanSet toFieldValue then mapToStruct env g toType rest toValue
          else
            (case toFieldValue of
               None \<Rightarrow> mapToStruct env g toType rest toValue
             | Some tfv \<Rightarrow>
                (case allocField toFieldType tfv of
                   Inl e \<Rightarrow> Inl e
                 | Inr tfv' \<Rightarrow>
                    (case CopyService env g (Some (snd kv)) (Some tfv') of
                       Inl e \<Rightarrow> Inl e
                     | Inr (ok, tfv'') \<Rightarrow>
                         mapToStruct env g toType rest (after toValue tfv'')))))"

fun structToMap :: "stdlib \<Rightarrow> globals \<Rightarrow> Value \<Rightarrow> gtype \<Rightarrow> (string \<times> gtype) list \<Rightarrow> Value
                     \<Rightarrow> error + Value" where
  "structToMap env g fromValue toType [] toValue = Inr toValue"
| "structToMap env g fromValue toType (fromField # rest) toValue =
     (let k = NewElem (KeyT toType) in
      case CopyService env g (Some (StringValue (fst fromField))) (Some k) of
        Inl e \<Rightarrow> Inl e
      | Inr (okk, k') \<Rightarrow>
          if \<not> okk then structToMap env g fromValue toType rest toValue
          else
            let v = NewElem (ElemT toType) in
            (case CopyService env g (FieldByName fromValue (fst fromField)) (Some v) of
               Inl e \<Rightarrow> Inl e
             | Inr (okv, v') \<Rightarrow>
                 if \<not> okv then structToMap env g fromValue toType rest toValue
                 else
                   (case SetMapIndex toValue (case k' of None \<Rightarrow> k | Some w \<Rightarrow> w)
                                             (case v' of None \<Rightarrow> v | Some w \<Rightarrow> w) of
                      Inl e \<Rightarrow> Inl e
                    | Inr toValue' \<Rightarrow> structToMap env g fromValue toType rest toValue')))"

text \<open>
  \<^verbatim>\<open>Copy(from, to)\<close>: the arguments are interface values (\<open>None\<close> is nil). The result is
  the panic, or what \<open>to\<close> holds when the call returns: the same pointer, its pointee as
  the copy left it.
\<close>

definition Copy :: "stdlib \<Rightarrow> globals \<Rightarrow> val option \<Rightarrow> val option \<Rightarrow> error + val option" where
  "Copy env g from to =
     (let fromValue = ValueOf from; toValue = ValueOf to in
      if \<not> IsValid fromValue then Inr to
      else case toValue of
        None \<Rightarrow> Inl ZeroValue
      | Some toValue0 \<Rightarrow>
          if KindT (Type toValue0) \<noteq> Pointer then Inr to
          else
            (case indirectValue fromValue of
               None \<Rightarrow> Inl ZeroValue
             | Some fromValue \<Rightarrow>
            (case indirectValue toValue of
               None \<Rightarrow> Inl ZeroValue
             | Some toValue \<Rightarrow>
               let fromType = indirectType (Type fromValue);
                   toType = indirectType (Type toValue);
                   result =
                    (if KindT fromType = Slice \<and> KindT toType = Slice then
                       sliceToSlice env g fromValue toType [0 ..< Len fromValue] toValue
                     else if KindT fromType = Struct \<and> KindT toType = Struct then
                       structToStruct env g fromValue toType (fieldsT fromType) toValue
                     else if KindT fromType = Map \<and> KindT toType = Map then
                       bindE (makeIfNil toType toValue)
                         (mapToMap env g toType (MapRange fromValue))
                     else if KindT fromType = Map \<and> KindT toType = Struct then
                       mapToStruct env g toType (MapRange fromValue) toValue
                     else if KindT fromType = Struct \<and> KindT toType = Map then
                       bindE (makeIfNil toType toValue)
                         (structToMap env g fromValue toType (fieldsT fromType))
                     else
                       bindE (CopyService env g (Some fromValue) (Some toValue))
                         (\<lambda>r. Inr (after toValue (snd r))))
               in bindE result (\<lambda>toValue. Inr (Some (plug (up toValue) (cur toValue)))))))"


section \<open>A stand-in for the standard library\<close>

text \<open>
  To run the model on concrete inputs the library parameter needs a value. This one
  knows one float (zero, printed \<^verbatim>\<open>0\<close>), two instants (the zero \<^verbatim>\<open>time.Time\<close>,
  printed \<^verbatim>\<open>0001-01-01 00:00:00\<close>, and 2006-01-02 15:04:05 UTC), the location
  \<^verbatim>\<open>UTC\<close> and no other, and no \<^verbatim>\<open>String\<close> method. None of the evaluations below
  that use it depends on more.
\<close>

definition utcLoc :: val where
  "utcLoc = VPtr TLocation (Some (put1 (zero TLocation) (FieldOf ''name'') (VString ''UTC'')))"

definition refTime :: val where
  "refTime = VDefined ''time.Time''
     (VStruct [(''wall'', VUint Uint64 0), (''ext'', VInt Int64 63271811045),
               (''loc'', VPtr TLocation None)])"

definition lib0 :: stdlib where
  "lib0 = \<lparr>FormatFloat = (\<lambda>f bits. ''0''),
           ParseFloat = (\<lambda>s. if s = ''0'' then Some 0 else None),
           ToFloat32 = (\<lambda>f. f),
           IntToFloat = (\<lambda>i. 0),
           FloatToInt = (\<lambda>f. 0),
           FloatToUint = (\<lambda>f. 0),
           LoadLocation = (\<lambda>name. if name = ''UTC'' then Some utcLoc else None),
           UTC = utcLoc,
           TimeFormat = (\<lambda>t loc layout. if t = refTime then ''2006-01-02 15:04:05''
                                          else ''0001-01-01 00:00:00''),
           ParseInLocation = (\<lambda>layout s loc.
              if s = ''2006-01-02 15:04:05'' then Some refTime
              else if s = ''0001-01-01 00:00:00'' then Some (zero TTime)
              else None),
           StringMethod = (\<lambda>name. None)\<rparr>"

definition addrOf :: "val \<Rightarrow> val" where
  \<comment> \<open>\<^verbatim>\<open>&x\<close>\<close>
  "addrOf x = VPtr (typeOf x) (Some x)"


section \<open>Notions used to state the properties\<close>

text \<open>
  The library parameter is \<open>wellTyped\<close> when \<^verbatim>\<open>time.ParseInLocation\<close> returns values
  of type \<^verbatim>\<open>time.Time\<close>, as its signature says. \<open>written toValue0 toValue y\<close> is the
  handle \<open>toValue0\<close> after \<open>y\<close> has been stored in the slot \<open>toValue\<close> that it unwraps to.
\<close>

definition wellTyped :: "stdlib \<Rightarrow> bool" where
  "wellTyped env \<longleftrightarrow>
     (\<forall>layout s loc t. ParseInLocation env layout s loc = Some t \<longrightarrow> typeOf t = TTime)"

definition written :: "Value option \<Rightarrow> Value \<Rightarrow> val \<Rightarrow> Value option" where
  "written toValue0 toValue y = map_option (\<lambda>outer. resync outer (toValue\<lparr>cur := y\<rparr>)) toValue0"

text \<open>
  The scalar values that the string coercions are stated for: every boolean, the integers
  of a signed or unsigned kind within the range of the kind (\<^verbatim>\<open>uintptr\<close> has no
  string coercion), and the floats that the library's own parser reads back from the
  library's own rendering at the float's width. Values of a defined type are judged by
  the value underneath.
\<close>

fun representable :: "stdlib \<Rightarrow> val \<Rightarrow> bool" where
  "representable env (VBool b) = True"
| "representable env (VInt k i) =
     (k \<in> {IntK, Int8, Int16, Int32, Int64} \<and> - (2 ^ (bitSize k - 1)) \<le> i \<and> i < 2 ^ (bitSize k - 1))"
| "representable env (VUint k i) =
     (k \<in> {Uint, Uint8, Uint16, Uint32, Uint64} \<and> 0 \<le> i \<and> i < 2 ^ bitSize k)"
| "representable env (VFloat k f) =
     (k = Float32 \<and> map_option (ToFloat32 env) (ParseFloat env (FormatFloat env f 32)) = Some f
      \<or> k = Float64 \<and> ParseFloat env (FormatFloat env f 64) = Some f)"
| "representable env (VDefined n v) = representable env v"
| "representable env v = False"

section \<open>Facts about the reflection layer\<close>

lemmas type_defs = TTime_def TLocation_def TZone_def TZoneTrans_def isBasic_def isInt_def
  isUint_def isFloat_def IntSize_def

lemmas reflect_defs = ValueOf_def IsValid_def Type_def Kind_def enter_def Elem_def FieldByName_def
  Index_def Len_def CanSet_def CanInterface_def IsNil_def BoolV_def IntV_def UintV_def FloatV_def
  StringV_def assignTo_def Set_def New_def NewElem_def Append_def MakeMap_def MapRange_def
  upsert_def SetMapIndex_def resync_def bindE_def directlyAssignable_def implements_def
  AssignableTo_def IsExported_def makeInt_def makeFloat_def intOf_def floatOf_def convertOp_def
  CanConvert_def Convert_def stringer_def wrapS_def wrapU_def

lemmas strconv_defs = FormatBool_def ParseBool_def digitChar_def digitVal_def FormatUint_def
  FormatInt_def ParseUint_def ParseInt_def

lemmas copy_defs = getTimeZone_def setTo_def StringValue_def Plain_def CopyValue_def
  CopyService_def after_def allocField_def makeIfNil_def Copy_def initial_def lib0_def
  utcLoc_def refTime_def addrOf_def written_def

lemma indirectType_id: "KindT t \<noteq> Pointer \<Longrightarrow> indirectType t = t"
  by (simp add: indirectType.simps)

lemma indirectValue_id: "Kind v \<noteq> Pointer \<Longrightarrow> indirectValue v = v"
  by (simp add: indirectValue.simps)

lemma Kind_indirectValue: "Kind (indirectValue v) \<noteq> Pointer"
proof (induction v rule: indirectValue.induct)
  case (1 reflectValue)
  then show ?case by (cases "Kind reflectValue = Pointer") (simp_all add: indirectValue.simps)
qed

lemma typeOf_rawv: "typeOf (rawv x) = underlying (typeOf x)"
  by (induction x) auto

lemma rawv_idem: "rawv (rawv x) = rawv x"
  by (induction x) auto

lemma retype_rawv: "retype (rawv x) T = retype x T"
  by (induction T) (auto simp: rawv_idem)

lemma rawv_retype: "rawv (retype x T) = rawv x"
  by (induction T) (auto simp: rawv_idem)

lemma typeOf_retype: "underlying (typeOf x) = underlying T \<Longrightarrow> typeOf (retype x T) = T"
  by (induction T) (auto simp: typeOf_rawv)

lemma retype_typeOf: "retype x (typeOf x) = x"
proof (induction x)
  case (VDefined n v)
  have "retype (VDefined n v) (typeOf v) = retype v (typeOf v)"
    using retype_rawv [of "VDefined n v" "typeOf v"] retype_rawv [of v "typeOf v"] by simp
  with VDefined show ?case by simp
qed auto

lemma underlying_basic: "KindT T = k \<Longrightarrow> isBasic k \<Longrightarrow> underlying T = TBasic k"
  by (induction T) (auto simp: isBasic_def split: if_splits)

lemma underlying_iface: "KindT T = Interface \<Longrightarrow> underlying T = TAny"
  by (induction T) (auto simp: isBasic_def split: if_splits)

lemma typeOf_zero: "typeOf (zero T) = T"
  by (induction T) (auto intro!: map_idI)

lemma KindT_TTime: "KindT TTime = Struct"
  by (simp add: TTime_def)

lemma directlyAssignable_underlying: "directlyAssignable T V \<Longrightarrow> underlying V = underlying T"
  by (auto simp: directlyAssignable_def split: if_splits)

lemma assignTo_type: "assignTo x T = Inr y \<Longrightarrow> typeOf y = T"
  by (auto simp: assignTo_def implements_def underlying_iface typeOf_retype
        dest: directlyAssignable_underlying split: if_splits)

lemma assignTo_same: "assignTo x (typeOf x) = Inr x"
  by (simp add: assignTo_def directlyAssignable_def retype_typeOf)

lemma assignTo_ok: "AssignableTo (typeOf x) T \<Longrightarrow> \<exists>y. assignTo x T = Inr y"
  by (auto simp: assignTo_def AssignableTo_def)

lemma unnamed_pointer: "KindT T = Pointer \<Longrightarrow> \<not> hasName T \<Longrightarrow> T = TPtr (ElemT T)"
  by (cases T) (auto simp: isBasic_def split: if_splits)

lemma typeOf_makeInt: "isInt (KindT T) \<or> isUint (KindT T) \<Longrightarrow> typeOf (makeInt T i) = T"
  by (auto simp: makeInt_def isInt_def isUint_def isBasic_def
        intro!: typeOf_retype underlying_basic [symmetric])

lemma typeOf_makeFloat: "isFloat (KindT T) \<Longrightarrow> typeOf (makeFloat env T f) = T"
  by (auto simp: makeFloat_def isFloat_def isBasic_def
        intro!: typeOf_retype underlying_basic [symmetric])

lemma convertOp_type:
  assumes "convertOp env T (typeOf x) = Some op"
  shows "typeOf (op x) = T"
proof -
  have ptr: "typeOf (case x of VPtr t p \<Rightarrow> VPtr (ElemT T) (map_option (\<lambda>x. retype x (ElemT T)) p)
                      | _ \<Rightarrow> x) = T"
    if "KindT T = Pointer" "\<not> hasName T" "KindT (typeOf x) = Pointer" "\<not> hasName (typeOf x)"
    using that unnamed_pointer [of T] by (cases x) (auto simp: isBasic_def split: if_splits)
  have iface: "typeOf (retype (VIface d) T) = T" if "KindT T = Interface" for d
    using that by (simp add: typeOf_retype underlying_iface)
  show ?thesis
    using assms ptr iface
    by (auto simp: convertOp_def Let_def typeOf_makeInt typeOf_makeFloat typeOf_retype
          implements_def split: if_splits)
qed

lemma convertOp_string:
  "KindT T = String \<Longrightarrow> convertOp env T (TBasic String) = Some (\<lambda>v. retype v T)"
  by (simp add: convertOp_def isInt_def isUint_def isFloat_def isBasic_def underlying_basic)

lemma convertOp_bool:
  "KindT T = Bool \<Longrightarrow> convertOp env T (TBasic Bool) = Some (\<lambda>v. retype v T)"
  by (simp add: convertOp_def isInt_def isUint_def isFloat_def isBasic_def underlying_basic)

lemma convertOp_int:
  "KindT T \<in> {IntK, Int8, Int16, Int32, Int64} \<Longrightarrow>
   convertOp env T (TBasic Int64) = Some (\<lambda>v. makeInt T (intOf v))"
  by (auto simp: convertOp_def isInt_def isUint_def isFloat_def isBasic_def)

lemma convertOp_uint:
  "KindT T \<in> {Uint, Uint8, Uint16, Uint32, Uint64} \<Longrightarrow>
   convertOp env T (TBasic Uint64) = Some (\<lambda>v. makeInt T (intOf v))"
  by (auto simp: convertOp_def isInt_def isUint_def isFloat_def isBasic_def)

lemma convertOp_float:
  "KindT T \<in> {Float32, Float64} \<Longrightarrow>
   convertOp env T (TBasic Float64) = Some (\<lambda>v. makeFloat env T (floatOf v))"
  by (auto simp: convertOp_def isInt_def isUint_def isFloat_def isBasic_def)

lemma convertOp_time: "convertOp env TTime TTime = Some (\<lambda>v. retype v TTime)"
  by (simp add: convertOp_def isInt_def isUint_def isFloat_def isBasic_def TTime_def)

lemma Set_same_type:
  "flagAddr v \<Longrightarrow> \<not> flagRO v \<Longrightarrow> \<not> flagRO x \<Longrightarrow> Type x = Type v
   \<Longrightarrow> Set v x = Inr (v\<lparr>cur := cur x\<rparr>)"
  using assignTo_same [of "cur x"] by (simp add: Set_def Type_def bindE_def)

lemma Set_assignable:
  "flagAddr v \<Longrightarrow> \<not> flagRO v \<Longrightarrow> \<not> flagRO x \<Longrightarrow> AssignableTo (Type x) (Type v)
   \<Longrightarrow> \<exists>y. Set v x = Inr (v\<lparr>cur := y\<rparr>) \<and> typeOf y = Type v"
  using assignTo_ok [of "cur x" "Type v"] assignTo_type [of "cur x" "Type v"]
  by (auto simp: Set_def Type_def bindE_def)

lemma setTo_assignable:
  "flagAddr v \<Longrightarrow> \<not> flagRO v \<Longrightarrow> \<not> flagRO x \<Longrightarrow> AssignableTo (Type x) (Type v)
   \<Longrightarrow> \<exists>y. setTo v0 v (Inr x) = Inr (True, written v0 v y) \<and> typeOf y = Type v"
  using Set_assignable [of v x] by (auto simp: setTo_def bindE_def written_def)

lemma setTo_Convert:
  assumes "flagAddr v" "\<not> flagRO v" "\<not> flagRO x" "convertOp env (Type v) (Type x) = Some op"
  shows "setTo v0 v (Convert env x (Type v)) = Inr (True, written v0 v (op (cur x)))"
proof -
  let ?c = "\<lparr>cur = op (cur x), up = [], flagAddr = False, flagRO = flagRO x\<rparr>"
  have "Type ?c = Type v"
    using convertOp_type [of env "Type v" "cur x" op] assms(4) by (simp add: Type_def)
  then have "Set v ?c = Inr (v\<lparr>cur := op (cur x)\<rparr>)"
    using Set_same_type [of v ?c] assms by simp
  then show ?thesis
    using assms(4) by (simp add: setTo_def Convert_def bindE_def written_def)
qed

lemma written_direct: "written (Some v) v y = Some (v\<lparr>cur := y\<rparr>)"
  by (simp add: written_def resync_def)

section \<open>The unit conversion\<close>

text \<open>
  On a destination slot that can be set, from a source that was not reached through an
  unexported field, \<^verbatim>\<open>CopyValue\<close> returns: it reports \<open>False\<close> only with the
  destination as it was, and what it stores has the type of the slot.
\<close>

lemma CopyValue_total:
  assumes wf: "wellTyped env"
    and f: "indirectValue f0 = Some fv" and t: "indirectValue t0 = Some tv"
    and ro: "\<not> flagRO fv" and st: "flagAddr tv" "\<not> flagRO tv"
  shows "\<exists>b h. CopyValue env g f0 t0 = Inr (b, h) \<and> (\<not> b \<longrightarrow> h = t0) \<and>
           (h = t0 \<or> (\<exists>y. typeOf y = Type tv \<and> h = written t0 tv y))"
proof -
  define P :: "error + bool \<times> Value option \<Rightarrow> bool" where
    "P r \<longleftrightarrow> (\<exists>b h. r = Inr (b, h) \<and> (\<not> b \<longrightarrow> h = t0) \<and>
           (h = t0 \<or> (\<exists>y. typeOf y = Type tv \<and> h = written t0 tv y)))" for r
  have kf: "KindT (Type fv) \<noteq> Pointer"
    using Kind_indirectValue [of f0] f by (simp add: Kind_def)
  have kt: "KindT (Type tv) \<noteq> Pointer"
    using Kind_indirectValue [of t0] t by (simp add: Kind_def)
  have F: "P (Inr (b, t0))" for b
    by (auto simp: P_def)
  have S: "P (setTo t0 tv (Inr fv))" if "AssignableTo (Type fv) (Type tv)"
    using setTo_assignable [OF st ro that, of t0] by (auto simp: P_def)
  have C: "P (setTo t0 tv (Convert env x (Type tv)))"
    if "\<not> flagRO x" "convertOp env (Type tv) (Type x) = Some op" for x op
    using setTo_Convert [OF st that, of t0] convertOp_type [of env "Type tv" "cur x" op] that(2)
    by (auto simp: P_def Type_def)
  have Cs: "P (setTo t0 tv (Convert env (Plain (VString s)) (Type tv)))"
    if "KindT (Type tv) = String" for s
    using C [of "Plain (VString s)"] convertOp_string [OF that, of env]
    by (simp add: Plain_def Type_def)
  have Cb: "P (setTo t0 tv (Convert env (Plain (VBool s)) (Type tv)))"
    if "KindT (Type tv) = Bool" for s
    using C [of "Plain (VBool s)"] convertOp_bool [OF that, of env]
    by (simp add: Plain_def Type_def)
  have Ci: "P (setTo t0 tv (Convert env (Plain (VInt Int64 s)) (Type tv)))"
    if "KindT (Type tv) \<in> {IntK, Int8, Int16, Int32, Int64}" for s
    using C [of "Plain (VInt Int64 s)"] convertOp_int [OF that, of env]
    by (simp add: Plain_def Type_def)
  have Cu: "P (setTo t0 tv (Convert env (Plain (VUint Uint64 s)) (Type tv)))"
    if "KindT (Type tv) \<in> {Uint, Uint8, Uint16, Uint32, Uint64}" for s
    using C [of "Plain (VUint Uint64 s)"] convertOp_uint [OF that, of env]
    by (simp add: Plain_def Type_def)
  have Cf: "P (setTo t0 tv (Convert env (Plain (VFloat Float64 s)) (Type tv)))"
    if "KindT (Type tv) \<in> {Float32, Float64}" for s
    using C [of "Plain (VFloat Float64 s)"] convertOp_float [OF that, of env]
    by (simp add: Plain_def Type_def)
  have Ct: "P (setTo t0 tv (Convert env (Plain x) (Type tv)))"
    if "Type tv = TTime" "ParseInLocation env l s z = Some x" for x l s z
    using C [of "Plain x"] convertOp_time [of env] wf that
    by (auto simp: Plain_def Type_def wellTyped_def)
  have Cc: "P (setTo t0 tv (Convert env fv (Type tv)))" if "CanConvert env fv (Type tv)"
    using C [of fv] that ro by (auto simp: CanConvert_def)
  have "P (CopyValue env g f0 t0)"
    unfolding CopyValue_def
    using kf kt F S Cs Cb Ci Cu Cf Ct Cc
    by (auto simp: f t indirectType_id Let_def NewElem_def CanInterface_def Type_def typeOf_zero
                   KindT_TTime ro
             split: option.split)
  then show ?thesis by (simp add: P_def)
qed

lemma CopyValue_invalid:
  "indirectValue f0 = None \<or> indirectValue t0 = None \<Longrightarrow> CopyValue env g f0 t0 = Inr (False, t0)"
  by (auto simp: CopyValue_def split: option.split)


lemma wellTyped_lib0: "wellTyped lib0"
  by (simp add: wellTyped_def lib0_def typeOf_zero) (simp add: refTime_def type_defs)

section \<open>Facts about package strconv\<close>

lemma digitVal_digitChar: "n < 10 \<Longrightarrow> digitVal (digitChar n) = Some n"
proof -
  assume "n < 10"
  then have "n \<in> {0, 1, 2, 3, 4, 5, 6, 7, 8, 9}"
    by auto
  then show ?thesis by (auto simp: digitVal_def digitChar_def)
qed

lemma digitChar_digit: "n < 10 \<Longrightarrow> digitChar n \<in> set ''0123456789''"
proof -
  assume "n < 10"
  then have "digitChar n = ''0123456789'' ! n" "n < length ''0123456789''"
    by (simp_all add: digitChar_def)
  then show ?thesis by (metis nth_mem)
qed

lemma parseDigits_append:
  "parseDigits (xs @ ys) a = (case parseDigits xs a of None \<Rightarrow> None | Some b \<Rightarrow> parseDigits ys b)"
  by (induction xs arbitrary: a) (auto split: option.splits)

lemma parseDigits_formatBits: "parseDigits (formatBits n) 0 = Some n"
proof (induction n rule: formatBits.induct)
  case (1 n)
  show ?case
  proof (cases "n < 10")
    case True
    then show ?thesis by (simp add: formatBits.simps [of n] digitVal_digitChar)
  next
    case False
    with 1 have "parseDigits (formatBits (n div 10)) 0 = Some (n div 10)" by simp
    with False show ?thesis
      by (simp add: formatBits.simps [of n] parseDigits_append digitVal_digitChar)
  qed
qed

lemma formatBits_digits: "formatBits n \<noteq> [] \<and> set (formatBits n) \<subseteq> set ''0123456789''"
proof (induction n rule: formatBits.induct)
  case (1 n)
  show ?case
  proof (cases "n < 10")
    case True
    then show ?thesis using digitChar_digit [of n] by (simp add: formatBits.simps [of n])
  next
    case False
    with 1 have "set (formatBits (n div 10)) \<subseteq> set ''0123456789''" by simp
    with False show ?thesis
      using digitChar_digit [of "n mod 10"] by (simp add: formatBits.simps [of n])
  qed
qed

lemma hd_formatBits: "hd (formatBits n) \<noteq> CHR ''-'' \<and> hd (formatBits n) \<noteq> CHR ''+''"
proof -
  have "hd (formatBits n) \<in> set ''0123456789''"
    using formatBits_digits [of n] hd_in_set [of "formatBits n"] by blast
  then show ?thesis by auto
qed

lemma ParseBool_FormatBool: "ParseBool (FormatBool b) = Some b"
  by (simp add: ParseBool_def FormatBool_def)

lemma ParseUint_FormatUint: "0 \<le> i \<Longrightarrow> i < 2 ^ 64 \<Longrightarrow> ParseUint (FormatUint i) 0 = Some i"
  using formatBits_digits [of "nat i"]
  by (auto simp: ParseUint_def FormatUint_def parseDigits_formatBits IntSize_def)

lemma ParseInt_FormatInt:
  assumes "- (2 ^ 63) \<le> i" "i < 2 ^ 63"
  shows "ParseInt (FormatInt i) 0 = Some i"
proof (cases "i < 0")
  case True
  have "ParseUint (formatBits (nat (- i))) 0 = Some (- i)"
    using True assms formatBits_digits [of "nat (- i)"]
    by (auto simp: ParseUint_def parseDigits_formatBits IntSize_def)
  with True assms show ?thesis
    by (simp add: ParseInt_def FormatInt_def IntSize_def Let_def)
next
  case False
  have "ParseUint (formatBits (nat i)) 0 = Some i"
    using False assms formatBits_digits [of "nat i"]
    by (auto simp: ParseUint_def parseDigits_formatBits IntSize_def)
  with False assms show ?thesis
    using hd_formatBits [of "nat i"] formatBits_digits [of "nat i"]
    by (simp add: ParseInt_def FormatInt_def IntSize_def Let_def)
qed

lemma wrapS_id: "- (2 ^ (w - 1)) \<le> i \<Longrightarrow> i < 2 ^ (w - 1) \<Longrightarrow> 0 < w \<Longrightarrow> wrapS w i = i"
proof -
  assume a: "- (2 ^ (w - 1)) \<le> i" "i < 2 ^ (w - 1)" "0 < w"
  then have "(2::int) ^ w = 2 * 2 ^ (w - 1)"
    by (cases w) simp_all
  with a have "0 \<le> i + 2 ^ (w - 1)" "i + 2 ^ (w - 1) < 2 ^ w" by simp_all
  then show ?thesis by (simp add: wrapS_def)
qed

lemma wrapU_id: "0 \<le> i \<Longrightarrow> i < 2 ^ w \<Longrightarrow> wrapU w i = i"
  by (simp add: wrapU_def)

lemma wrapS_mod: "0 < w \<Longrightarrow> wrapS w i mod 2 ^ w = i mod 2 ^ w"
proof -
  assume "0 < w"
  have "((i + 2 ^ (w - 1)) mod 2 ^ w - 2 ^ (w - 1)) mod 2 ^ w = (i + 2 ^ (w - 1) - 2 ^ (w - 1)) mod 2 ^ w"
    by (rule mod_diff_left_eq)
  then show ?thesis by (simp add: wrapS_def)
qed

lemma wrapS_range: "0 < w \<Longrightarrow> - (2 ^ (w - 1)) \<le> wrapS w i \<and> wrapS w i < 2 ^ (w - 1)"
proof -
  assume "0 < w"
  then have e: "(2::int) ^ w = 2 * 2 ^ (w - 1)" by (cases w) simp_all
  have "0 \<le> (i + 2 ^ (w - 1)) mod 2 ^ w" "(i + 2 ^ (w - 1)) mod 2 ^ w < 2 ^ w"
    by simp_all
  with e show ?thesis by (simp add: wrapS_def)
qed

section \<open>The branches of the unit conversion\<close>

lemma bitSize_pos: "0 < bitSize k"
  by (cases k) (simp_all add: IntSize_def)

lemma string_not_assignable:
  "KindT V = String \<Longrightarrow> KindT T \<noteq> String \<Longrightarrow> KindT T \<noteq> Interface \<Longrightarrow> \<not> AssignableTo V T"
  by (auto simp: AssignableTo_def directlyAssignable_def implements_def)

lemma to_string_not_assignable:
  "KindT T = String \<Longrightarrow> KindT V \<noteq> String \<Longrightarrow> \<not> AssignableTo V T"
  by (auto simp: AssignableTo_def directlyAssignable_def implements_def)

lemma CopyValue_parse_time:
  assumes "indirectValue fromValue0 = Some fromValue" and "KindT (Type fromValue) = String"
    and "indirectValue toValue0 = Some toValue" and "Type toValue = TTime"
  shows "(\<forall>t. ParseInLocation env (DateTimeLayout g) (StringV fromValue) (getTimeZone env g) = Some t
              \<and> typeOf t = TTime \<and> CanSet (Some toValue)
            \<longrightarrow> CopyValue env g fromValue0 toValue0 = Inr (True, written toValue0 toValue t))
       \<and> (ParseInLocation env (DateTimeLayout g) (StringV fromValue) (getTimeZone env g) = None
            \<longrightarrow> CopyValue env g fromValue0 toValue0 = Inr (True, toValue0))"
proof -
  have na: "\<not> AssignableTo (Type fromValue) TTime"
    using assms(2) by (auto simp: AssignableTo_def directlyAssignable_def implements_def KindT_TTime)
  have ki: "indirectType (Type fromValue) = Type fromValue" "indirectType TTime = TTime"
    using assms(2) by (simp_all add: indirectType_id KindT_TTime)
  have w: "setTo toValue0 toValue (Convert env (Plain t) TTime) = Inr (True, written toValue0 toValue t)"
    if "typeOf t = TTime" "CanSet (Some toValue)" for t
  proof -
    have "convertOp env (Type toValue) (Type (Plain t)) = Some (\<lambda>v. retype v TTime)"
      using that assms(4) convertOp_time [of env] by (simp add: Type_def Plain_def)
    from setTo_Convert [OF _ _ _ this, of toValue0] that retype_typeOf [of t] assms(4)
    show ?thesis by (simp add: CanSet_def Plain_def)
  qed
  show ?thesis
    unfolding CopyValue_def
    using na ki w assms
    by (auto simp: Let_def KindT_TTime NewElem_def CanInterface_def Type_def typeOf_zero)
qed

lemma CopyValue_format_time:
  assumes "indirectValue fromValue0 = Some fromValue" and "Type fromValue = TTime"
    and "\<not> flagRO fromValue"
    and "indirectValue toValue0 = Some toValue" and "KindT (Type toValue) = String"
    and "CanSet (Some toValue)"
  shows "CopyValue env g fromValue0 toValue0
         = Inr (True, written toValue0 toValue
             (retype (VString (TimeFormat env (cur fromValue) (getTimeZone env g) (DateTimeLayout g)))
                     (Type toValue)))"
proof -
  have st: "flagAddr toValue" "\<not> flagRO toValue"
    using assms(6) by (simp_all add: CanSet_def)
  have na: "\<not> AssignableTo (Type fromValue) (Type toValue)"
    using assms(2,5) by (intro to_string_not_assignable) (simp_all add: KindT_TTime)
  have ty: "indirectType (Type fromValue) = Type fromValue" "indirectType (Type toValue) = Type toValue"
    using assms(2,5) by (simp_all add: indirectType_id KindT_TTime)
  have c: "convertOp env (Type toValue) (Type (Plain (VString s))) = Some (\<lambda>x. retype x (Type toValue))" for s
    using assms(5) convertOp_string [of "Type toValue" env] by (simp add: Type_def Plain_def)
  have "setTo toValue0 toValue (Convert env (Plain (VString s)) (Type toValue))
           = Inr (True, written toValue0 toValue (retype (VString s) (Type toValue)))" for s
    using setTo_Convert [OF st _ c, of s toValue0] by (simp add: Plain_def)
  then show ?thesis
    unfolding CopyValue_def using na ty assms
    by (auto simp: Let_def KindT_TTime CanInterface_def)
qed

lemma CopyValue_from_string:
  assumes "indirectValue f0 = Some fv" and "KindT (Type fv) = String"
    and "indirectValue t0 = Some tv" and "CanSet (Some tv)" and "k = KindT (Type tv)"
  shows "k = Bool \<Longrightarrow> ParseBool (StringV fv) = Some b \<Longrightarrow>
           CopyValue env g f0 t0 = Inr (True, written t0 tv (retype (VBool b) (Type tv)))"
    and "k \<in> {IntK, Int8, Int16, Int32, Int64} \<Longrightarrow> ParseInt (StringV fv) 0 = Some v \<Longrightarrow>
           CopyValue env g f0 t0
           = Inr (True, written t0 tv (retype (VInt k (wrapS (bitSize k) v)) (Type tv)))"
    and "k \<in> {Uint, Uint8, Uint16, Uint32, Uint64} \<Longrightarrow> ParseUint (StringV fv) 0 = Some v \<Longrightarrow>
           CopyValue env g f0 t0
           = Inr (True, written t0 tv (retype (VUint k (wrapU (bitSize k) v)) (Type tv)))"
    and "k \<in> {Float32, Float64} \<Longrightarrow> ParseFloat env (StringV fv) = Some f \<Longrightarrow>
           CopyValue env g f0 t0
           = Inr (True, written t0 tv
                   (retype (VFloat k (if k = Float32 then ToFloat32 env f else f)) (Type tv)))"
proof -
  have st: "flagAddr tv" "\<not> flagRO tv"
    using assms(4) by (simp_all add: CanSet_def)
  have kt: "KindT (Type tv) \<noteq> Pointer"
    using Kind_indirectValue [of t0] assms(3) by (simp add: Kind_def)
  have ty: "indirectType (Type fv) = Type fv" "indirectType (Type tv) = Type tv"
    using assms(2) kt by (simp_all add: indirectType_id)
  have na: "\<not> AssignableTo (Type fv) (Type tv)" if "k \<noteq> String" "k \<noteq> Interface"
    using that assms(2,5) by (intro string_not_assignable) auto
  have cv: "setTo t0 tv (Convert env (Plain x) (Type tv)) = Inr (True, written t0 tv (op x))"
    if "convertOp env (Type tv) (typeOf x) = Some op" for x op
    using setTo_Convert [OF st, of "Plain x" env op t0] that by (simp add: Plain_def Type_def)
  show "CopyValue env g f0 t0 = Inr (True, written t0 tv (retype (VBool b) (Type tv)))"
    if "k = Bool" "ParseBool (StringV fv) = Some b"
    unfolding CopyValue_def
    using na ty that assms(1,2,3,5) cv [of "VBool b"] convertOp_bool [of "Type tv" env]
    by (auto simp: Let_def)
  show "CopyValue env g f0 t0
           = Inr (True, written t0 tv (retype (VInt k (wrapS (bitSize k) v)) (Type tv)))"
    if "k \<in> {IntK, Int8, Int16, Int32, Int64}" "ParseInt (StringV fv) 0 = Some v"
  proof -
    have "makeInt (Type tv) v = retype (VInt k (wrapS (bitSize k) v)) (Type tv)"
      using that(1) assms(5) by (auto simp: makeInt_def isInt_def)
    then show ?thesis
      unfolding CopyValue_def
      using na ty that assms(1,2,3,5) cv [of "VInt Int64 v"] convertOp_int [of "Type tv" env]
      by (auto simp: Let_def intOf_def)
  qed
  show "CopyValue env g f0 t0
           = Inr (True, written t0 tv (retype (VUint k (wrapU (bitSize k) v)) (Type tv)))"
    if "k \<in> {Uint, Uint8, Uint16, Uint32, Uint64}" "ParseUint (StringV fv) 0 = Some v"
  proof -
    have "makeInt (Type tv) v = retype (VUint k (wrapU (bitSize k) v)) (Type tv)"
      using that(1) assms(5) by (auto simp: makeInt_def isInt_def)
    then show ?thesis
      unfolding CopyValue_def
      using na ty that assms(1,2,3,5) cv [of "VUint Uint64 v"] convertOp_uint [of "Type tv" env]
      by (auto simp: Let_def intOf_def)
  qed
  show "CopyValue env g f0 t0
           = Inr (True, written t0 tv
                   (retype (VFloat k (if k = Float32 then ToFloat32 env f else f)) (Type tv)))"
    if "k \<in> {Float32, Float64}" "ParseFloat env (StringV fv) = Some f"
  proof -
    have "makeFloat env (Type tv) f
            = retype (VFloat k (if k = Float32 then ToFloat32 env f else f)) (Type tv)"
      using that(1) assms(5) by (auto simp: makeFloat_def)
    then show ?thesis
      unfolding CopyValue_def
      using na ty that assms(1,2,3,5) cv [of "VFloat Float64 f"] convertOp_float [of "Type tv" env]
      by (auto simp: Let_def floatOf_def)
  qed
qed

lemma CopyValue_to_string:
  assumes "indirectValue f0 = Some fv" and "indirectValue t0 = Some tv"
    and "KindT (Type tv) = String" and "CanSet (Some tv)" and "k = KindT (Type fv)"
  shows "k = Bool \<Longrightarrow> CopyValue env g f0 t0
           = Inr (True, written t0 tv (retype (VString (FormatBool (BoolV fv))) (Type tv)))"
    and "k \<in> {IntK, Int8, Int16, Int32, Int64} \<Longrightarrow> CopyValue env g f0 t0
           = Inr (True, written t0 tv (retype (VString (FormatInt (IntV fv))) (Type tv)))"
    and "k \<in> {Uint, Uint8, Uint16, Uint32, Uint64} \<Longrightarrow> CopyValue env g f0 t0
           = Inr (True, written t0 tv (retype (VString (FormatUint (UintV fv))) (Type tv)))"
    and "k \<in> {Float32, Float64} \<Longrightarrow> CopyValue env g f0 t0
           = Inr (True, written t0 tv
                  (retype (VString (FormatFloat env (FloatV fv) (if k = Float32 then 32 else 64)))
                          (Type tv)))"
proof -
  have st: "flagAddr tv" "\<not> flagRO tv"
    using assms(4) by (simp_all add: CanSet_def)
  have kf: "KindT (Type fv) \<noteq> Pointer"
    using Kind_indirectValue [of f0] assms(1) by (simp add: Kind_def)
  have ty: "indirectType (Type fv) = Type fv" "indirectType (Type tv) = Type tv"
    using assms(3) kf by (simp_all add: indirectType_id)
  have na: "\<not> AssignableTo (Type fv) (Type tv)" if "k \<noteq> String"
    using that assms(3,5) by (intro to_string_not_assignable) auto
  have cv: "setTo t0 tv (Convert env (Plain (VString s)) (Type tv))
             = Inr (True, written t0 tv (retype (VString s) (Type tv)))" for s
    using setTo_Convert [OF st, of "Plain (VString s)" env _ t0] convertOp_string [OF assms(3), of env]
    by (simp add: Plain_def Type_def)
  show "CopyValue env g f0 t0
           = Inr (True, written t0 tv (retype (VString (FormatBool (BoolV fv))) (Type tv)))"
    if "k = Bool"
    unfolding CopyValue_def using na ty assms(1,2,3,5) cv that by (auto simp: Let_def)
  show "CopyValue env g f0 t0
           = Inr (True, written t0 tv (retype (VString (FormatInt (IntV fv))) (Type tv)))"
    if "k \<in> {IntK, Int8, Int16, Int32, Int64}"
    unfolding CopyValue_def using na ty assms(1,2,3,5) cv that by (auto simp: Let_def)
  show "CopyValue env g f0 t0
           = Inr (True, written t0 tv (retype (VString (FormatUint (UintV fv))) (Type tv)))"
    if "k \<in> {Uint, Uint8, Uint16, Uint32, Uint64}"
    unfolding CopyValue_def using na ty assms(1,2,3,5) cv that by (auto simp: Let_def)
  show "CopyValue env g f0 t0
           = Inr (True, written t0 tv
                  (retype (VString (FormatFloat env (FloatV fv) (if k = Float32 then 32 else 64)))
                          (Type tv)))"
    if "k \<in> {Float32, Float64}"
    unfolding CopyValue_def using na ty assms(1,2,3,5) cv that by (auto simp: Let_def)
qed

lemma representable_rawv: "representable env x \<Longrightarrow> representable env (rawv x)"
  by (induction x) auto

lemma KindT_underlying: "KindT (underlying t) = KindT t"
  by (induction t) auto

lemma rawv_not_defined: "rawv x \<noteq> VDefined n v"
  by (induction x) auto

lemma slot_facts:
  "KindT T \<noteq> Pointer \<Longrightarrow> indirectValue (Some (NewElem T)) = Some (NewElem T)"
  "Type (NewElem T) = T" "CanSet (Some (NewElem T))"
  by (simp_all add: indirectValue_id Kind_def Type_def NewElem_def typeOf_zero CanSet_def)

lemma plain_facts:
  "KindT (typeOf x) \<noteq> Pointer \<Longrightarrow> indirectValue (Some (Plain x)) = Some (Plain x)"
  "Type (Plain x) = typeOf x" "\<not> flagRO (Plain x)" "cur (Plain x) = x"
  by (simp_all add: indirectValue_id Kind_def Type_def Plain_def)

section \<open>The claims about the unit conversion\<close>

text \<open>
  Claim C1. A string into a destination of type \<^verbatim>\<open>time.Time\<close> (lines 111 to 122):
  when the string parses with the configured layout in the configured time zone, the
  timestamp is stored in the slot the destination unwraps to and the result is
  \<open>True\<close>; when it does not parse, the result is \<open>True\<close> as well and the destination
  is handed back as it was. A store needs a slot that can be set; the library hands
  back a \<^verbatim>\<open>time.Time\<close>.
\<close>

theorem CopyValue_string_to_time:
  assumes "indirectValue fromValue0 = Some fromValue" and "KindT (Type fromValue) = String"
    and "indirectValue toValue0 = Some toValue" and "Type toValue = TTime"
  shows "(\<forall>t. ParseInLocation env (DateTimeLayout g) (StringV fromValue) (getTimeZone env g) = Some t
              \<and> typeOf t = TTime \<and> CanSet (Some toValue)
            \<longrightarrow> CopyValue env g fromValue0 toValue0 = Inr (True, written toValue0 toValue t))
       \<and> (ParseInLocation env (DateTimeLayout g) (StringV fromValue) (getTimeZone env g) = None
            \<longrightarrow> CopyValue env g fromValue0 toValue0 = Inr (True, toValue0))"
  using CopyValue_parse_time [OF assms] .

theorem CopyValue_string_to_time_witness:
  "CopyValue lib0 initial (Some (Plain (VString ''2006-01-02 15:04:05''))) (Some (NewElem TTime))
     = Inr (True, Some ((NewElem TTime)\<lparr>cur := refTime\<rparr>))
   \<and> CopyValue lib0 initial (Some (Plain (VString ''tomorrow''))) (Some (NewElem TTime))
     = Inr (True, Some (NewElem TTime))
   \<and> cur (NewElem TTime) \<noteq> refTime"
proof -
  have s: "indirectValue (Some (Plain (VString x))) = Some (Plain (VString x))"
          "KindT (Type (Plain (VString x))) = String" for x
    by (simp_all add: indirectValue_id reflect_defs Plain_def type_defs)
  have d: "indirectValue (Some (NewElem TTime)) = Some (NewElem TTime)" "Type (NewElem TTime) = TTime"
    by (simp_all add: indirectValue_id Kind_def Type_def NewElem_def typeOf_zero KindT_TTime)
  have p: "ParseInLocation lib0 (DateTimeLayout initial) (StringV (Plain (VString ''2006-01-02 15:04:05'')))
             (getTimeZone lib0 initial) = Some refTime"
          "ParseInLocation lib0 (DateTimeLayout initial) (StringV (Plain (VString ''tomorrow'')))
             (getTimeZone lib0 initial) = None"
          "typeOf refTime = TTime" "CanSet (Some (NewElem TTime))" "cur (NewElem TTime) \<noteq> refTime"
    by (simp_all add: lib0_def StringV_def Plain_def refTime_def type_defs CanSet_def NewElem_def)
  show ?thesis
    using CopyValue_string_to_time [OF s d, of lib0 initial "''2006-01-02 15:04:05''"]
          CopyValue_string_to_time [OF s d, of lib0 initial "''tomorrow''"] p
    by (simp add: written_direct)
qed

text \<open>
  Claim C5. A scalar with a string coercion, copied into a string and that string copied
  back into a slot of the scalar's type, comes back as it was: both calls return
  \<open>True\<close>, and the second stores the value the first started from. This holds for
  every \<open>representable\<close> value; for the floats that is as far as the library's
  \<^verbatim>\<open>ParseFloat\<close> reads back what its \<^verbatim>\<open>FormatFloat\<close> printed, a float32 being
  parsed at 64 bits and then converted.
\<close>

theorem scalar_round_trip:
  assumes "representable env x"
  shows "\<exists>s. CopyValue env g (Some (Plain x)) (Some (NewElem (TBasic String)))
              = Inr (True, Some ((NewElem (TBasic String))\<lparr>cur := VString s\<rparr>))
            \<and> CopyValue env g (Some (Plain (VString s))) (Some (NewElem (typeOf x)))
              = Inr (True, Some ((NewElem (typeOf x))\<lparr>cur := x\<rparr>))"
proof -
  define T where "T = typeOf x"
  define r where "r = rawv x"
  have rr: "representable env r" using assms by (simp add: r_def representable_rawv)
  have tr: "typeOf r = underlying T" by (simp add: r_def T_def typeOf_rawv)
  have kr: "KindT T = KindT (typeOf r)" by (simp add: tr KindT_underlying)
  have xr: "retype r T = x" by (simp add: r_def T_def retype_rawv retype_typeOf)
  have sk: "KindT (TBasic String) = String" by (simp add: isBasic_def)
  note S = slot_facts [of "TBasic String"]
  have pk: "KindT T \<noteq> Pointer \<Longrightarrow> indirectValue (Some (Plain x)) = Some (Plain x)"
    by (simp add: plain_facts T_def)
  note Out = CopyValue_to_string [OF pk S(1) _ S(3), where k = "KindT T" and env = env and g = g,
             unfolded S(2) plain_facts(2) written_direct T_def [symmetric], simplified]
  have strv: "indirectValue (Some (Plain (VString s))) = Some (Plain (VString s))"
             "KindT (Type (Plain (VString s))) = String"
             "StringV (Plain (VString s)) = s" for s
    by (simp_all add: plain_facts isBasic_def StringV_def)
  have kk: "KindT T = KindT (Type (NewElem T))"
    by (simp add: slot_facts(2))
  have B1: "CopyValue env g (Some (Plain (VString s))) (Some (NewElem T))
              = Inr (True, Some ((NewElem T)\<lparr>cur := retype (VBool b) T\<rparr>))"
    if "KindT T = Bool" "ParseBool s = Some b" for s b
  proof -
    have "KindT T \<noteq> Pointer" using that(1) by simp
    from CopyValue_from_string(1) [OF strv(1,2) slot_facts(1) [OF this] slot_facts(3) kk that(1), of s b env g]
      that(2)
    show ?thesis by (simp only: strv(3) slot_facts(2) written_direct)
  qed
  have B2: "CopyValue env g (Some (Plain (VString s))) (Some (NewElem T))
              = Inr (True, Some ((NewElem T)\<lparr>cur := retype (VInt (KindT T) (wrapS (bitSize (KindT T)) v)) T\<rparr>))"
    if "KindT T \<in> {IntK, Int8, Int16, Int32, Int64}" "ParseInt s 0 = Some v" for s v
  proof -
    have "KindT T \<noteq> Pointer" using that(1) by auto
    from CopyValue_from_string(2) [OF strv(1,2) slot_facts(1) [OF this] slot_facts(3) kk that(1), of s v env g]
      that(2)
    show ?thesis by (simp only: strv(3) slot_facts(2) written_direct)
  qed
  have B3: "CopyValue env g (Some (Plain (VString s))) (Some (NewElem T))
              = Inr (True, Some ((NewElem T)\<lparr>cur := retype (VUint (KindT T) (wrapU (bitSize (KindT T)) v)) T\<rparr>))"
    if "KindT T \<in> {Uint, Uint8, Uint16, Uint32, Uint64}" "ParseUint s 0 = Some v" for s v
  proof -
    have "KindT T \<noteq> Pointer" using that(1) by auto
    from CopyValue_from_string(3) [OF strv(1,2) slot_facts(1) [OF this] slot_facts(3) kk that(1), of s v env g]
      that(2)
    show ?thesis by (simp only: strv(3) slot_facts(2) written_direct)
  qed
  have B4: "CopyValue env g (Some (Plain (VString s))) (Some (NewElem T))
              = Inr (True, Some ((NewElem T)\<lparr>cur := retype (VFloat (KindT T)
                        (if KindT T = Float32 then ToFloat32 env f else f)) T\<rparr>))"
    if "KindT T \<in> {Float32, Float64}" "ParseFloat env s = Some f" for s f
  proof -
    have "KindT T \<noteq> Pointer" using that(1) by auto
    from CopyValue_from_string(4) [OF strv(1,2) slot_facts(1) [OF this] slot_facts(3) kk that(1), of env s f g]
      that(2)
    show ?thesis by (simp only: strv(3) slot_facts(2) written_direct)
  qed
  show ?thesis
  proof (cases r)
    case (VBool b)
    then have k: "KindT T = Bool" by (simp add: kr isBasic_def)
    have "BoolV (Plain x) = b" using VBool by (simp add: BoolV_def Plain_def r_def)
    moreover have "CopyValue env g (Some (Plain (VString (FormatBool b)))) (Some (NewElem T))
            = Inr (True, Some ((NewElem T)\<lparr>cur := retype (VBool b) T\<rparr>))"
      using B1 [of "FormatBool b" b] k by (simp add: ParseBool_FormatBool)
    ultimately show ?thesis
      using Out(1) k xr VBool unfolding T_def [symmetric] by (auto simp: isBasic_def)
  next
    case (VInt k i)
    then have k: "KindT T = k" "k \<in> {IntK, Int8, Int16, Int32, Int64}"
         and i: "- (2 ^ (bitSize k - 1)) \<le> i" "i < 2 ^ (bitSize k - 1)"
      using rr by (auto simp: kr isBasic_def)
    have "- (2 ^ 63) \<le> i \<and> i < 2 ^ 63"
      using k(2) i by (auto simp: IntSize_def)
    then have p: "ParseInt (FormatInt i) 0 = Some i" by (simp add: ParseInt_FormatInt)
    have w: "wrapS (bitSize k) i = i" using i by (simp add: wrapS_id bitSize_pos)
    have "IntV (Plain x) = i" using VInt by (simp add: IntV_def Plain_def r_def)
    moreover have "CopyValue env g (Some (Plain (VString (FormatInt i)))) (Some (NewElem T))
            = Inr (True, Some ((NewElem T)\<lparr>cur := retype (VInt k i) T\<rparr>))"
      using B2 [of "FormatInt i" i] k p w by auto
    ultimately show ?thesis
      using Out(2) k xr VInt unfolding T_def [symmetric] by (auto simp: isBasic_def)
  next
    case (VUint k i)
    then have k: "KindT T = k" "k \<in> {Uint, Uint8, Uint16, Uint32, Uint64}"
         and i: "0 \<le> i" "i < 2 ^ bitSize k"
      using rr by (auto simp: kr isBasic_def)
    have "i < 2 ^ 64"
      using k(2) i by (auto simp: IntSize_def)
    then have p: "ParseUint (FormatUint i) 0 = Some i" using i by (simp add: ParseUint_FormatUint)
    have w: "wrapU (bitSize k) i = i" using i by (simp add: wrapU_id)
    have "UintV (Plain x) = i" using VUint by (simp add: UintV_def Plain_def r_def)
    moreover have "CopyValue env g (Some (Plain (VString (FormatUint i)))) (Some (NewElem T))
            = Inr (True, Some ((NewElem T)\<lparr>cur := retype (VUint k i) T\<rparr>))"
      using B3 [of "FormatUint i" i] k p w by auto
    ultimately show ?thesis
      using Out(3) k xr VUint unfolding T_def [symmetric] by (auto simp: isBasic_def)
  next
    case (VFloat k f)
    then have k: "KindT T = k" "k \<in> {Float32, Float64}"
      using rr by (auto simp: kr isBasic_def)
    define bits :: nat where "bits = (if k = Float32 then 32 else 64)"
    from VFloat rr obtain f' where p: "ParseFloat env (FormatFloat env f bits) = Some f'"
        and w: "(if k = Float32 then ToFloat32 env f' else f') = f"
      by (auto simp: bits_def)
    have "FloatV (Plain x) = f" using VFloat by (simp add: FloatV_def Plain_def r_def)
    moreover have "CopyValue env g (Some (Plain (VString (FormatFloat env f bits)))) (Some (NewElem T))
            = Inr (True, Some ((NewElem T)\<lparr>cur := retype (VFloat k f) T\<rparr>))"
      using B4 [of "FormatFloat env f bits" f'] k p w by auto
    ultimately show ?thesis
      using Out(4) k xr VFloat unfolding T_def [symmetric] by (auto simp: bits_def isBasic_def)
  qed (use rr rawv_not_defined [of x] in \<open>simp_all add: r_def\<close>)
qed

theorem scalar_round_trip_witness:
  "representable lib0 (VInt IntK 42) \<and> representable lib0 (VBool True)
   \<and> CopyValue lib0 initial (Some (Plain (VInt IntK 42))) (Some (NewElem (TBasic String)))
       = Inr (True, Some ((NewElem (TBasic String))\<lparr>cur := VString ''42''\<rparr>))
   \<and> CopyValue lib0 initial (Some (Plain (VString ''42''))) (Some (NewElem (TBasic IntK)))
       = Inr (True, Some ((NewElem (TBasic IntK))\<lparr>cur := VInt IntK 42\<rparr>))
   \<and> CopyValue lib0 initial (Some (Plain (VBool True))) (Some (NewElem (TBasic String)))
       = Inr (True, Some ((NewElem (TBasic String))\<lparr>cur := VString ''true''\<rparr>))
   \<and> CopyValue lib0 initial (Some (Plain (VString ''true''))) (Some (NewElem (TBasic Bool)))
       = Inr (True, Some ((NewElem (TBasic Bool))\<lparr>cur := VBool True\<rparr>))"
proof -
  have r: "representable lib0 (VInt IntK 42)" "representable lib0 (VBool True)"
    by (simp_all add: IntSize_def)
  have a: "CopyValue lib0 initial (Some (Plain (VInt IntK 42))) (Some (NewElem (TBasic String)))
       = Inr (True, Some ((NewElem (TBasic String))\<lparr>cur := VString ''42''\<rparr>))"
    by (simp add: copy_defs reflect_defs type_defs strconv_defs indirectValue.simps indirectType.simps
          formatBits.simps)
  have b: "CopyValue lib0 initial (Some (Plain (VBool True))) (Some (NewElem (TBasic String)))
       = Inr (True, Some ((NewElem (TBasic String))\<lparr>cur := VString ''true''\<rparr>))"
    by (simp add: copy_defs reflect_defs type_defs strconv_defs indirectValue.simps indirectType.simps)
  from scalar_round_trip [OF r(1), of initial] a
  have c: "CopyValue lib0 initial (Some (Plain (VString ''42''))) (Some (NewElem (TBasic IntK)))
       = Inr (True, Some ((NewElem (TBasic IntK))\<lparr>cur := VInt IntK 42\<rparr>))"
    by (auto simp: NewElem_def)
  from scalar_round_trip [OF r(2), of initial] b
  have d: "CopyValue lib0 initial (Some (Plain (VString ''true''))) (Some (NewElem (TBasic Bool)))
       = Inr (True, Some ((NewElem (TBasic Bool))\<lparr>cur := VBool True\<rparr>))"
    by (auto simp: NewElem_def)
  show ?thesis using r a b c d by simp
qed

text \<open>
  Claim C7, as stated: \<^verbatim>\<open>CopyValue\<close> never panics, and a destination that cannot be
  set makes it return \<open>False\<close>. It fails on \<^verbatim>\<open>CopyValue(reflect.ValueOf(1),
  reflect.ValueOf(2))\<close>: the destination is not addressable, the types are assignable,
  and \<^verbatim>\<open>Set\<close> panics.
\<close>

theorem CopyValue_unsettable_counterexample:
  "\<not> CanSet (Some (Plain (VInt IntK 2))) \<and>
   CopyValue lib0 initial (Some (Plain (VInt IntK 1))) (Some (Plain (VInt IntK 2)))
     = Inl Unaddressable"
  by (simp add: copy_defs reflect_defs type_defs indirectValue.simps indirectType.simps)

text \<open>
  Claim C7, amended: when the slot the destination unwraps to can be set, and the
  source was not reached through an unexported field, \<^verbatim>\<open>CopyValue\<close> does not panic;
  it returns a boolean, and with \<open>False\<close> the destination as it was.
\<close>

theorem CopyValue_settable_never_raises:
  assumes "wellTyped env"
    and "\<forall>fv. indirectValue fromValue = Some fv \<longrightarrow> \<not> flagRO fv"
    and "\<forall>tv. indirectValue toValue = Some tv \<longrightarrow> CanSet (Some tv)"
  shows "\<exists>b h. CopyValue env g fromValue toValue = Inr (b, h) \<and> (\<not> b \<longrightarrow> h = toValue)"
proof (cases "indirectValue fromValue = None \<or> indirectValue toValue = None")
  case True
  then have "CopyValue env g fromValue toValue = Inr (False, toValue)"
    by (rule CopyValue_invalid)
  then show ?thesis by blast
next
  case False
  then obtain fv tv where v: "indirectValue fromValue = Some fv" "indirectValue toValue = Some tv"
    by auto
  with assms have "\<not> flagRO fv" "flagAddr tv" "\<not> flagRO tv"
    by (auto simp: CanSet_def)
  from CopyValue_total [OF assms(1) v this, of g] show ?thesis by blast
qed

theorem CopyValue_settable_never_raises_witness:
  "CanSet (Some (NewElem (TBasic IntK))) \<and>
   (\<exists>b h. CopyValue lib0 initial (Some (Plain (VString ''x''))) (Some (NewElem (TBasic IntK)))
            = Inr (b, h))"
proof -
  have s: "indirectValue (Some (Plain (VString ''x''))) = Some (Plain (VString ''x''))"
    by (simp add: indirectValue_id reflect_defs Plain_def type_defs)
  have d: "indirectValue (Some (NewElem (TBasic IntK))) = Some (NewElem (TBasic IntK))"
    by (simp add: indirectValue_id reflect_defs type_defs)
  have c: "CanSet (Some (NewElem (TBasic IntK)))"
    by (simp add: reflect_defs)
  have "\<forall>fv. indirectValue (Some (Plain (VString ''x''))) = Some fv \<longrightarrow> \<not> flagRO fv"
    using s by (auto simp: Plain_def)
  moreover have "\<forall>tv. indirectValue (Some (NewElem (TBasic IntK))) = Some tv \<longrightarrow> CanSet (Some tv)"
    using c d by auto
  ultimately show ?thesis
    using CopyValue_settable_never_raises [OF wellTyped_lib0, of "Some (Plain (VString ''x''))"
        "Some (NewElem (TBasic IntK))" initial] c
    by blast
qed

text \<open>
  Claim C8. The package variables start as the layout \<^verbatim>\<open>2006-01-02 15:04:05\<close> and
  the zone name \<^verbatim>\<open>Asia/Shanghai\<close>. \<^verbatim>\<open>getTimeZone\<close> is the location the name held
  by the variable resolves to, and \<^verbatim>\<open>time.UTC\<close> when it does not resolve. Both
  temporal conversions (a \<^verbatim>\<open>time.Time\<close> into a string, a string into a
  \<^verbatim>\<open>time.Time\<close>) format or parse in that location and with the layout, as the
  variables are when the call is made.
\<close>

theorem temporal_configuration:
  "DateTimeLayout initial = ''2006-01-02 15:04:05'' \<and> TimeZone initial = ''Asia/Shanghai''
   \<and> (\<forall>loc. LoadLocation env (TimeZone g) = Some loc \<longrightarrow> getTimeZone env g = loc)
   \<and> (LoadLocation env (TimeZone g) = None \<longrightarrow> getTimeZone env g = UTC env)
   \<and> (indirectValue fromValue0 = Some fromValue \<and> Type fromValue = TTime \<and> \<not> flagRO fromValue
        \<and> indirectValue toValue0 = Some toValue \<and> KindT (Type toValue) = String
        \<and> CanSet (Some toValue)
      \<longrightarrow> CopyValue env g fromValue0 toValue0
          = Inr (True, written toValue0 toValue
              (retype (VString (TimeFormat env (cur fromValue)
                                  (case LoadLocation env (TimeZone g) of Some loc \<Rightarrow> loc | None \<Rightarrow> UTC env)
                                  (DateTimeLayout g)))
                      (Type toValue))))
   \<and> (indirectValue fromValue0 = Some fromValue \<and> KindT (Type fromValue) = String
        \<and> indirectValue toValue0 = Some toValue \<and> Type toValue = TTime \<and> CanSet (Some toValue)
        \<and> ParseInLocation env (DateTimeLayout g) (StringV fromValue)
             (case LoadLocation env (TimeZone g) of Some loc \<Rightarrow> loc | None \<Rightarrow> UTC env) = Some t
        \<and> typeOf t = TTime
      \<longrightarrow> CopyValue env g fromValue0 toValue0 = Inr (True, written toValue0 toValue t))"
proof -
  have z: "(case LoadLocation env (TimeZone g) of Some loc \<Rightarrow> loc | None \<Rightarrow> UTC env) = getTimeZone env g"
    by (simp add: getTimeZone_def)
  show ?thesis
    unfolding z
    using CopyValue_format_time [of fromValue0 fromValue toValue0 toValue env g]
          CopyValue_parse_time [of fromValue0 fromValue toValue0 toValue env g]
    by (auto simp: initial_def getTimeZone_def)
qed

theorem temporal_configuration_witness:
  "LoadLocation lib0 (TimeZone (initial\<lparr>TimeZone := ''UTC''\<rparr>)) = Some utcLoc
   \<and> getTimeZone lib0 (initial\<lparr>TimeZone := ''UTC''\<rparr>) = utcLoc
   \<and> LoadLocation lib0 (TimeZone initial) = None
   \<and> getTimeZone lib0 initial = UTC lib0
   \<and> CopyValue lib0 initial (Some (Plain refTime)) (Some (NewElem (TBasic String)))
      = Inr (True, Some ((NewElem (TBasic String))\<lparr>cur := VString ''2006-01-02 15:04:05''\<rparr>))
   \<and> CopyValue lib0 initial (Some (Plain (VString ''2006-01-02 15:04:05''))) (Some (NewElem TTime))
      = Inr (True, Some ((NewElem TTime)\<lparr>cur := refTime\<rparr>))"
proof -
  have l: "LoadLocation lib0 (TimeZone (initial\<lparr>TimeZone := ''UTC''\<rparr>)) = Some utcLoc"
          "LoadLocation lib0 (TimeZone initial) = None"
    by (simp_all add: lib0_def initial_def)
  have f: "indirectValue (Some (Plain refTime)) = Some (Plain refTime)" "Type (Plain refTime) = TTime"
          "\<not> flagRO (Plain refTime)"
    by (simp_all add: indirectValue_id reflect_defs Plain_def type_defs refTime_def)
  have ds: "indirectValue (Some (NewElem (TBasic String))) = Some (NewElem (TBasic String))"
           "KindT (Type (NewElem (TBasic String))) = String" "CanSet (Some (NewElem (TBasic String)))"
    by (simp_all add: indirectValue_id reflect_defs type_defs)
  have s: "indirectValue (Some (Plain (VString ''2006-01-02 15:04:05''))) = Some (Plain (VString ''2006-01-02 15:04:05''))"
          "KindT (Type (Plain (VString ''2006-01-02 15:04:05''))) = String"
    by (simp_all add: indirectValue_id reflect_defs Plain_def type_defs)
  have dt: "indirectValue (Some (NewElem TTime)) = Some (NewElem TTime)" "Type (NewElem TTime) = TTime"
           "CanSet (Some (NewElem TTime))"
    by (simp_all add: indirectValue_id Kind_def Type_def NewElem_def typeOf_zero KindT_TTime CanSet_def)
  have p: "ParseInLocation lib0 (DateTimeLayout initial) (StringV (Plain (VString ''2006-01-02 15:04:05'')))
             (case LoadLocation lib0 (TimeZone initial) of Some loc \<Rightarrow> loc | None \<Rightarrow> UTC lib0) = Some refTime"
          "typeOf refTime = TTime"
          "TimeFormat lib0 (cur (Plain refTime))
             (case LoadLocation lib0 (TimeZone initial) of Some loc \<Rightarrow> loc | None \<Rightarrow> UTC lib0)
             (DateTimeLayout initial) = ''2006-01-02 15:04:05''"
    by (simp_all add: lib0_def StringV_def Plain_def refTime_def type_defs)
  have a: "getTimeZone lib0 (initial\<lparr>TimeZone := ''UTC''\<rparr>) = utcLoc" "getTimeZone lib0 initial = UTC lib0"
    using temporal_configuration [of lib0 "initial\<lparr>TimeZone := ''UTC''\<rparr>"] l(1)
          temporal_configuration [of lib0 initial] l(2)
    by simp_all
  have b: "CopyValue lib0 initial (Some (Plain refTime)) (Some (NewElem (TBasic String)))
      = Inr (True, Some ((NewElem (TBasic String))\<lparr>cur := VString ''2006-01-02 15:04:05''\<rparr>))"
    using temporal_configuration [of lib0 initial "Some (Plain refTime)" "Plain refTime"
            "Some (NewElem (TBasic String))" "NewElem (TBasic String)"] f ds p(3)
    by (simp add: written_direct Type_def NewElem_def)
  have c: "CopyValue lib0 initial (Some (Plain (VString ''2006-01-02 15:04:05''))) (Some (NewElem TTime))
      = Inr (True, Some ((NewElem TTime)\<lparr>cur := refTime\<rparr>))"
    using temporal_configuration [of lib0 initial "Some (Plain (VString ''2006-01-02 15:04:05''))"
            "Plain (VString ''2006-01-02 15:04:05'')" "Some (NewElem TTime)" "NewElem TTime" refTime]
          s dt p(1,2)
    by (simp add: written_direct)
  show ?thesis using l a b c by simp
qed

text \<open>
  Claim C9. A string into a destination of an integer kind is parsed with bit size 0,
  which is 64 bits, and the parsed value is then converted to the destination type:
  whenever the string parses, \<^verbatim>\<open>CopyValue\<close> returns \<open>True\<close> and stores the value
  reduced to the width of the destination (two's complement for a signed kind, the
  residue modulo \<open>2 ^ w\<close> for an unsigned one), also when the value does not fit.
  \<^verbatim>\<open>"300"\<close> into an \<^verbatim>\<open>int8\<close> stores 44.
\<close>

theorem CopyValue_string_to_integer:
  assumes "indirectValue fromValue0 = Some fromValue" and "KindT (Type fromValue) = String"
    and "indirectValue toValue0 = Some toValue" and "CanSet (Some toValue)"
    and "k = KindT (Type toValue)"
  shows "(k \<in> {IntK, Int8, Int16, Int32, Int64} \<and> ParseInt (StringV fromValue) 0 = Some v
            \<longrightarrow> CopyValue env g fromValue0 toValue0
                 = Inr (True, written toValue0 toValue
                                (retype (VInt k (wrapS (bitSize k) v)) (Type toValue))))
       \<and> (k \<in> {Uint, Uint8, Uint16, Uint32, Uint64} \<and> ParseUint (StringV fromValue) 0 = Some v
            \<longrightarrow> CopyValue env g fromValue0 toValue0
                 = Inr (True, written toValue0 toValue
                                (retype (VUint k (wrapU (bitSize k) v)) (Type toValue))))
       \<and> wrapS (bitSize k) v mod 2 ^ bitSize k = v mod 2 ^ bitSize k
       \<and> - (2 ^ (bitSize k - 1)) \<le> wrapS (bitSize k) v \<and> wrapS (bitSize k) v < 2 ^ (bitSize k - 1)
       \<and> wrapU (bitSize k) v = v mod 2 ^ bitSize k
       \<and> ParseInt (StringV fromValue) 0 = ParseInt (StringV fromValue) 64
       \<and> ParseUint (StringV fromValue) 0 = ParseUint (StringV fromValue) 64"
proof -
  have p: "ParseInt s 0 = ParseInt s 64" "ParseUint s 0 = ParseUint s 64" for s
    unfolding ParseInt_def ParseUint_def IntSize_def by simp_all
  show ?thesis
    using CopyValue_from_string(2) [OF assms, of v env g] CopyValue_from_string(3) [OF assms, of v env g]
          wrapS_mod [OF bitSize_pos, of k v] wrapS_range [OF bitSize_pos, of k v] p
    by (simp add: wrapU_def)
qed

theorem CopyValue_string_to_integer_witness:
  "ParseInt ''300'' 0 = Some 300 \<and>
   CopyValue lib0 initial (Some (Plain (VString ''300''))) (Some (NewElem (TBasic Int8)))
     = Inr (True, Some ((NewElem (TBasic Int8))\<lparr>cur := VInt Int8 44\<rparr>))"
proof -
  have s: "indirectValue (Some (Plain (VString ''300''))) = Some (Plain (VString ''300''))"
          "KindT (Type (Plain (VString ''300''))) = String"
    by (simp_all add: indirectValue_id reflect_defs Plain_def type_defs)
  have d: "indirectValue (Some (NewElem (TBasic Int8))) = Some (NewElem (TBasic Int8))"
          "CanSet (Some (NewElem (TBasic Int8)))" "Int8 = KindT (Type (NewElem (TBasic Int8)))"
    by (simp_all add: indirectValue_id reflect_defs type_defs)
  have p: "ParseInt (StringV (Plain (VString ''300''))) 0 = Some 300"
    by (simp add: strconv_defs StringV_def Plain_def IntSize_def)
  have w: "wrapS (bitSize Int8) 300 = 44"
    by (simp add: wrapS_def)
  show ?thesis
    using CopyValue_string_to_integer [OF s d(1,2,3), of 300 lib0 initial] p w
    by (simp add: written_direct StringV_def Plain_def Type_def NewElem_def)
qed

section \<open>The claims about the copy driver\<close>

text \<open>
  Claim C6. \<^verbatim>\<open>Copy\<close> is to return silently whatever it is given, a nil destination
  included. The guard of line 145 asks the zero \<^verbatim>\<open>Value\<close> of a nil destination for
  its type, which panics: \<^verbatim>\<open>Copy(1, nil)\<close> does not return.
\<close>

theorem Copy_nil_destination_panics:
  "Copy lib0 initial (Some (VInt IntK 1)) None = Inl ZeroValue"
  by (simp add: Copy_def ValueOf_def IsValid_def)

end
